theory Spec2Isabelle
  imports Complex_Main
begin

section \<open>Python values and exceptions\<close>

text \<open>
  The components exchange JSON-decoded Python values with the Tavily API. A Python
  \<^verbatim>\<open>str\<close> is modelled as a \<^typ>\<open>string\<close> holding its UTF-8 bytes; the components
  copy, compare and concatenate strings and never index or measure them. A \<^verbatim>\<open>dict\<close>
  is the list of its items in insertion order, looked up with \<^const>\<open>map_of\<close>.
\<close>

datatype json =
    JNull
  | JBool bool
  | JInt int
  | JFloat real
  | JStr string
  | JList "json list"
  | JObj "(string \<times> json) list"

text \<open>Truth value testing of Python (\<^verbatim>\<open>bool(v)\<close>).\<close>

fun truthy :: "json \<Rightarrow> bool" where
  "truthy JNull = False"
| "truthy (JBool b) = b"
| "truthy (JInt i) = (i \<noteq> 0)"
| "truthy (JFloat r) = (r \<noteq> 0)"
| "truthy (JStr s) = (s \<noteq> [])"
| "truthy (JList xs) = (xs \<noteq> [])"
| "truthy (JObj kvs) = (kvs \<noteq> [])"

fun type_name :: "json \<Rightarrow> string" where
  "type_name JNull = ''NoneType''"
| "type_name (JBool b) = ''bool''"
| "type_name (JInt i) = ''int''"
| "type_name (JFloat r) = ''float''"
| "type_name (JStr s) = ''str''"
| "type_name (JList xs) = ''list''"
| "type_name (JObj kvs) = ''dict''"

definition quoted :: "string \<Rightarrow> string" where
  "quoted s = CHR 0x27 # s @ [CHR 0x27]"

text \<open>
  The response object of httpx, as far as the components observe it: the attributes
  \<^verbatim>\<open>status_code\<close> and \<^verbatim>\<open>text\<close>, and the outcomes of the two methods they call.
  \<open>raise_for_status r = Some m\<close> says that \<^verbatim>\<open>r.raise_for_status()\<close> raises
  \<^verbatim>\<open>httpx.HTTPStatusError\<close> with message \<open>m\<close> (the status is not a success status);
  \<open>json r = Inl m\<close> says that \<^verbatim>\<open>r.json()\<close> raises a \<^verbatim>\<open>ValueError\<close>
  (\<^verbatim>\<open>json.JSONDecodeError\<close>) with message \<open>m\<close>, \<open>Inr v\<close> that the body decodes to \<open>v\<close>.
\<close>

record response =
  status_code :: int
  "text" :: string
  raise_for_status :: "string option"
  json :: "string + json"

text \<open>
  The instances of \<^verbatim>\<open>Exception\<close> by the classes the handlers tell apart. Every
  constructor carries \<^verbatim>\<open>str(e)\<close>; \<open>HTTPStatusError\<close> also carries
  \<^verbatim>\<open>e.response\<close>. \<open>RequestError\<close> and \<open>ValueError\<close> stand for their subclasses too.
\<close>

datatype exn =
    HTTPStatusError string response
  | RequestError string
  | ValueError string
  | TypeError string
  | AttributeError string
  | KeyError string
  | ToolException string
  | OtherException string

fun str_exn :: "exn \<Rightarrow> string" where
  "str_exn (HTTPStatusError m r) = m"
| "str_exn (RequestError m) = m"
| "str_exn (ValueError m) = m"
| "str_exn (TypeError m) = m"
| "str_exn (AttributeError m) = m"
| "str_exn (KeyError m) = m"
| "str_exn (ToolException m) = m"
| "str_exn (OtherException m) = m"

text \<open>\<^verbatim>\<open>v.get(k, d)\<close>: only a dict has the method.\<close>

definition get :: "json \<Rightarrow> string \<Rightarrow> json \<Rightarrow> exn + json" where
  "get v k d =
     (case v of
        JObj kvs \<Rightarrow> Inr (case map_of kvs k of None \<Rightarrow> d | Some x \<Rightarrow> x)
      | _ \<Rightarrow> Inl (AttributeError (quoted (type_name v) @ '' object has no attribute '' @ quoted ''get'')))"

text \<open>
  \<^verbatim>\<open>for x in v\<close>: a list gives its elements, a dict its keys, a string its
  characters (here its bytes: one-character strings either way, and none exactly when the
  string is empty); the other JSON values are not iterable.
\<close>

definition iter :: "json \<Rightarrow> exn + json list" where
  "iter v =
     (case v of
        JList xs \<Rightarrow> Inr xs
      | JObj kvs \<Rightarrow> Inr (map (\<lambda>kv. JStr (fst kv)) kvs)
      | JStr s \<Rightarrow> Inr (map (\<lambda>c. JStr [c]) s)
      | _ \<Rightarrow> Inl (TypeError (quoted (type_name v) @ '' object is not iterable'')))"

text \<open>Decimal rendering of an integer, as an f-string does it.\<close>

definition digit :: "nat \<Rightarrow> char" where
  "digit d = ''0123456789'' ! d"

fun show_nat :: "nat \<Rightarrow> string" where
  "show_nat n = (if n < 10 then [digit n] else show_nat (n div 10) @ [digit (n mod 10)])"

declare show_nat.simps [simp del]

definition show_int :: "int \<Rightarrow> string" where
  "show_int i = (if i < 0 then CHR ''-'' # show_nat (nat (- i)) else show_nat (nat i))"

text \<open>\<^verbatim>\<open>sep.join(lines)\<close>.\<close>

fun join :: "string \<Rightarrow> string list \<Rightarrow> string" where
  "join sep [] = []"
| "join sep [x] = x"
| "join sep (x # y # ys) = x @ sep @ join sep (y # ys)"

text \<open>The accented letters of the Portuguese messages, in UTF-8.\<close>

definition a_acute :: string where "a_acute = [CHR 0xC3, CHR 0xA1]"
definition o_acute :: string where "o_acute = [CHR 0xC3, CHR 0xB3]"
definition c_cedilla :: string where "c_cedilla = [CHR 0xC3, CHR 0xA7]"
definition a_tilde :: string where "a_tilde = [CHR 0xC3, CHR 0xA3]"

section \<open>The host's containers and the effects of a call\<close>

text \<open>
  \<^verbatim>\<open>Data(text=t, data=d)\<close> is recorded by its two keyword arguments: \<open>text\<close> is
  \<open>None\<close> when the call passes no text, \<open>data\<close> is empty when it passes no data.
\<close>

record Data =
  "text" :: "json option"
  data :: "(string \<times> json) list"

datatype Message = Message (message_text: string)

datatype status_value = Unset | StatusData "Data list" | StatusText string

datatype level = DEBUG | ERROR

record request =
  url :: string
  payload :: "(string \<times> json) list"
  headers :: "(string \<times> string) list"

text \<open>
  What \<^verbatim>\<open>client.post(url, json=payload, headers=headers)\<close> does is the environment's
  choice: it raises or returns a response.
\<close>

datatype post_outcome = Raises exn | Returns response

type_synonym http_client = "request \<Rightarrow> post_outcome"

text \<open>
  The effects of a method: the component's \<^verbatim>\<open>self.status\<close>, the requests sent
  through httpx in the order they were sent, and the records passed to the logger.
\<close>

record state =
  status :: status_value
  sent :: "request list"
  logged :: "(level \<times> string) list"

section \<open>html\_link\_extractor.py\<close>

text \<open>The two classes of langchain\_community are constructors; they keep their arguments.\<close>

datatype HtmlLinkExtractor =
  HtmlLinkExtractor (extractor_kind: string) (extractor_drop_fragments: bool)

datatype DocumentExtractor = as_document_extractor (adapted: HtmlLinkExtractor)

datatype LinkExtractorTransformer =
  LinkExtractorTransformer (link_extractors: "DocumentExtractor list")

record 'd HtmlLinkExtractorComponent =
  kind :: string
  drop_fragments :: bool
  data_input :: 'd

definition get_data_input :: "'d HtmlLinkExtractorComponent \<Rightarrow> 'd" where
  "get_data_input self = data_input self"

definition build_document_transformer ::
  "'d HtmlLinkExtractorComponent \<Rightarrow> LinkExtractorTransformer" where
  "build_document_transformer self =
     LinkExtractorTransformer
       [as_document_extractor (HtmlLinkExtractor (kind self) (drop_fragments self))]"

section \<open>parse\_dataframe.py\<close>

text \<open>
  The DataFrame is given as \<^verbatim>\<open>iterrows()\<close> presents it: its rows in order, each as
  the dictionary \<^verbatim>\<open>row.to_dict()\<close> from column names to cell values of some type \<open>'v\<close>.
  The inputs \<open>template\<close> and \<open>sep\<close> may be \<^verbatim>\<open>None\<close>. A local variable of the source
  whose name is also a field is written with a prime (\<open>template'\<close>, \<open>sep'\<close>).
\<close>

record 'v ParseDataFrameComponent =
  df :: "(string \<times> 'v) list list"
  template :: "string option"
  sep :: "string option"

text \<open>\<^verbatim>\<open>x or d\<close> on an optional string: \<^verbatim>\<open>None\<close> and the empty string are false.\<close>

definition or_default :: "string option \<Rightarrow> string \<Rightarrow> string" where
  "or_default x d = (case x of None \<Rightarrow> d | Some s \<Rightarrow> if s = [] then d else s)"

definition clean_args ::
  "'v ParseDataFrameComponent \<Rightarrow> (string \<times> 'v) list list \<times> string \<times> string" where
  "clean_args self =
     (let dataframe = df self;
          template' = or_default (template self) ''{text}'';
          sep' = or_default (sep self) [CHR 0x0A]
      in (dataframe, template', sep'))"

text \<open>
  \<^verbatim>\<open>template.format(**row_dict)\<close> is Python's own; it is the parameter \<open>format\<close>,
  which returns the formatted line or the exception raised (a \<^verbatim>\<open>KeyError\<close> for a
  placeholder that names no column, say). The loop of \<^verbatim>\<open>parse_data\<close>:
\<close>

fun format_rows ::
  "(string \<Rightarrow> (string \<times> 'v) list \<Rightarrow> exn + string) \<Rightarrow> string \<Rightarrow> (string \<times> 'v) list list
     \<Rightarrow> string list \<Rightarrow> exn + string list" where
  "format_rows format template' [] lines = Inr lines"
| "format_rows format template' (row_dict # rows) lines =
     (case format template' row_dict of
        Inl e \<Rightarrow> Inl e
      | Inr text_line \<Rightarrow> format_rows format template' rows (lines @ [text_line]))"

definition parse_data ::
  "(string \<Rightarrow> (string \<times> 'v) list \<Rightarrow> exn + string) \<Rightarrow> 'v ParseDataFrameComponent \<Rightarrow> state
     \<Rightarrow> (exn + Message) \<times> state" where
  "parse_data format self st =
     (case clean_args self of
        (dataframe, template', sep') \<Rightarrow>
          (case format_rows format template' dataframe [] of
             Inl e \<Rightarrow> (Inl e, st)
           | Inr lines \<Rightarrow>
               (let result_string = join sep' lines
                in (Inr (Message result_string), st\<lparr>status := StatusText result_string\<rparr>))))"

text \<open>
  A formatter for examples, over string cells. On a template that consists of one
  placeholder \<^verbatim>\<open>{name}\<close>, with an identifier for the name, it does what
  \<^verbatim>\<open>str.format\<close> does: the cell of that column, or a \<^verbatim>\<open>KeyError\<close> whose text is the
  quoted name when the row has no such column.
\<close>

definition one_field_format :: "string \<Rightarrow> (string \<times> string) list \<Rightarrow> exn + string" where
  "one_field_format template' row_dict =
     (if 2 \<le> length template' \<and> hd template' = CHR ''{'' \<and> last template' = CHR ''}''
      then (let name = butlast (tl template')
            in case map_of row_dict name of
                 None \<Rightarrow> Inl (KeyError (quoted name))
               | Some v \<Rightarrow> Inr v)
      else Inr template')"

section \<open>tavily.py\<close>

text \<open>
  The inputs of \<^verbatim>\<open>TavilySearchComponent\<close>, with the types of their declarations:
  strings for the secret, the message text and the dropdowns (\<open>time_range\<close> may be
  \<^verbatim>\<open>None\<close>), an integer, two booleans.
\<close>

record TavilySearchComponent =
  api_key :: string
  query :: string
  search_depth :: string
  topic :: string
  time_range :: "string option"
  max_results :: int
  include_images :: bool
  include_answer :: bool

text \<open>The body of the loop over the results (lines 118 to 130).\<close>

definition result_data :: "json \<Rightarrow> exn + Data" where
  "result_data result =
     (case get result ''content'' (JStr []) of
        Inl e \<Rightarrow> Inl e
      | Inr content \<Rightarrow>
     (case get result ''title'' JNull of
        Inl e \<Rightarrow> Inl e
      | Inr title \<Rightarrow>
     (case get result ''url'' JNull of
        Inl e \<Rightarrow> Inl e
      | Inr url' \<Rightarrow>
     (case get result ''score'' JNull of
        Inl e \<Rightarrow> Inl e
      | Inr score \<Rightarrow>
          Inr \<lparr>text = Some content,
               data = [(''title'', title), (''url'', url'), (''content'', content),
                       (''score'', score)]\<rparr>))))"

fun append_results :: "json list \<Rightarrow> Data list \<Rightarrow> exn + Data list" where
  "append_results [] data_results = Inr data_results"
| "append_results (result # rest) data_results =
     (case result_data result of
        Inl e \<Rightarrow> Inl e
      | Inr d \<Rightarrow> append_results rest (data_results @ [d]))"

text \<open>
  Lines 113 to 135: the records built from the decoded body. \<^verbatim>\<open>a and b\<close> evaluates
  \<open>b\<close> only when \<open>a\<close> is true.
\<close>

definition build_data_results :: "TavilySearchComponent \<Rightarrow> json \<Rightarrow> exn + Data list" where
  "build_data_results self search_results =
     (case (if TavilySearchComponent.include_answer self
            then get search_results ''answer'' JNull else Inr (JBool False)) of
        Inl e \<Rightarrow> Inl e
      | Inr answer \<Rightarrow>
     (case get search_results ''results'' (JList []) of
        Inl e \<Rightarrow> Inl e
      | Inr results \<Rightarrow>
     (case iter results of
        Inl e \<Rightarrow> Inl e
      | Inr items \<Rightarrow>
     (case append_results items
             (if truthy answer then [\<lparr>text = Some answer, data = []\<rparr>] else []) of
        Inl e \<Rightarrow> Inl e
      | Inr data_results \<Rightarrow>
     (case (if TavilySearchComponent.include_images self
            then get search_results ''images'' JNull else Inr (JBool False)) of
        Inl e \<Rightarrow> Inl e
      | Inr images \<Rightarrow>
          Inr (if truthy images
               then data_results @
                      [\<lparr>text = Some (JStr ''Imagens encontradas''),
                        data = [(''images'', images)]\<rparr>]
               else data_results))))))"

definition tavily_url :: string where
  "tavily_url = ''https://api.tavily.com/search''"

definition tavily_headers :: "(string \<times> string) list" where
  "tavily_headers = [(''content-type'', ''application/json''), (''accept'', ''application/json'')]"

definition opt_str :: "string option \<Rightarrow> json" where
  "opt_str x = (case x of None \<Rightarrow> JNull | Some s \<Rightarrow> JStr s)"

definition fetch_content_payload :: "TavilySearchComponent \<Rightarrow> (string \<times> json) list" where
  "fetch_content_payload self =
     [(''api_key'', JStr (TavilySearchComponent.api_key self)),
      (''query'', JStr (TavilySearchComponent.query self)),
      (''search_depth'', JStr (TavilySearchComponent.search_depth self)),
      (''topic'', JStr (TavilySearchComponent.topic self)),
      (''max_results'', JInt (TavilySearchComponent.max_results self)),
      (''include_images'', JBool (TavilySearchComponent.include_images self)),
      (''include_answer'', JBool (TavilySearchComponent.include_answer self)),
      (''time_range'', opt_str (time_range self))]"

definition fetch_content_request :: "TavilySearchComponent \<Rightarrow> request" where
  "fetch_content_request self =
     \<lparr>url = tavily_url, payload = fetch_content_payload self, headers = tavily_headers\<rparr>"

text \<open>The \<^verbatim>\<open>try\<close> block of \<^verbatim>\<open>fetch_content\<close> (lines 94 to 135).\<close>

definition fetch_content_try ::
  "TavilySearchComponent \<Rightarrow> http_client \<Rightarrow> state \<Rightarrow> (exn + Data list) \<times> state" where
  "fetch_content_try self client st =
     (let request = fetch_content_request self;
          st1 = st\<lparr>sent := sent st @ [request]\<rparr>
      in case client request of
           Raises e \<Rightarrow> (Inl e, st1)
         | Returns response \<Rightarrow>
             (case raise_for_status response of
                Some m \<Rightarrow> (Inl (HTTPStatusError m response), st1)
              | None \<Rightarrow>
                  (case json response of
                     Inl m \<Rightarrow> (Inl (ValueError m), st1)
                   | Inr search_results \<Rightarrow> (build_data_results self search_results, st1))))"

text \<open>The three handlers return one record that carries the message, after logging it.\<close>

definition error_return :: "string \<Rightarrow> state \<Rightarrow> (exn + Data list) \<times> state" where
  "error_return error_message st =
     (Inr [\<lparr>text = Some (JStr error_message), data = [(''error'', JStr error_message)]\<rparr>],
      st\<lparr>logged := logged st @ [(ERROR, error_message)]\<rparr>)"

definition fetch_content ::
  "TavilySearchComponent \<Rightarrow> http_client \<Rightarrow> state \<Rightarrow> (exn + Data list) \<times> state" where
  "fetch_content self client st =
     (case fetch_content_try self client st of
        (Inr data_results, st1) \<Rightarrow> (Inr data_results, st1\<lparr>status := StatusData data_results\<rparr>)
      | (Inl exc, st1) \<Rightarrow>
          (case exc of
             HTTPStatusError m response \<Rightarrow>
               error_return (''Erro HTTP ocorrido: '' @ show_int (status_code response)
                             @ '' - '' @ response.text response) st1
           | RequestError m \<Rightarrow>
               error_return (''Erro de requisi'' @ c_cedilla @ a_tilde @ ''o ocorrido: '' @ m) st1
           | ValueError m \<Rightarrow>
               error_return (''Formato de resposta inv'' @ a_acute @ ''lido: '' @ m) st1
           | _ \<Rightarrow> (Inl exc, st1)))"

text \<open>
  \<^verbatim>\<open>data_to_text\<close> of \<^verbatim>\<open>langflow.helpers.data\<close> is the host's; it is a
  parameter that returns the rendered string or the exception raised.
\<close>

definition fetch_content_text ::
  "(string \<Rightarrow> Data list \<Rightarrow> exn + string) \<Rightarrow> TavilySearchComponent \<Rightarrow> http_client \<Rightarrow> state
     \<Rightarrow> (exn + Message) \<times> state" where
  "fetch_content_text data_to_text self client st =
     (case fetch_content self client st of
        (Inl e, st1) \<Rightarrow> (Inl e, st1)
      | (Inr data', st1) \<Rightarrow>
          (case data_to_text ''{text}'' data' of
             Inl e \<Rightarrow> (Inl e, st1)
           | Inr result_string \<Rightarrow>
               (Inr (Message result_string), st1\<lparr>status := StatusText result_string\<rparr>)))"

section \<open>tavily\_search.py\<close>

datatype TavilySearchDepth = BASIC | ADVANCED

datatype TavilySearchTopic = GENERAL | NEWS

fun depth_value :: "TavilySearchDepth \<Rightarrow> string" where
  "depth_value BASIC = ''basic''"
| "depth_value ADVANCED = ''advanced''"

fun topic_value :: "TavilySearchTopic \<Rightarrow> string" where
  "topic_value GENERAL = ''general''"
| "topic_value NEWS = ''news''"

text \<open>
  An argument that should be a member of an enum \<open>'e\<close>: \<open>Instance x\<close> is the member
  \<open>x\<close>; \<open>NotInstance s\<close> is any value for which \<^verbatim>\<open>isinstance\<close> is false, given by
  its \<^verbatim>\<open>str()\<close> (a dropdown string is its own \<^verbatim>\<open>str()\<close>).
\<close>

datatype 'e enum_arg = Instance 'e | NotInstance string

text \<open>
  Two operations of Python's \<^verbatim>\<open>str\<close> are parameters: \<^verbatim>\<open>s.lower()\<close> and
  \<^verbatim>\<open>repr(s)\<close>, which the message of a failed enum lookup quotes the value with.
\<close>

record python =
  lower :: "string \<Rightarrow> string"
  repr :: "string \<Rightarrow> string"

text \<open>\<^verbatim>\<open>TavilySearchDepth(value)\<close> and \<^verbatim>\<open>TavilySearchTopic(value)\<close>: lookup by value.\<close>

definition TavilySearchDepth_of :: "python \<Rightarrow> string \<Rightarrow> exn + TavilySearchDepth" where
  "TavilySearchDepth_of py v =
     (if v = ''basic'' then Inr BASIC
      else if v = ''advanced'' then Inr ADVANCED
      else Inl (ValueError (repr py v @ '' is not a valid TavilySearchDepth'')))"

definition TavilySearchTopic_of :: "python \<Rightarrow> string \<Rightarrow> exn + TavilySearchTopic" where
  "TavilySearchTopic_of py v =
     (if v = ''general'' then Inr GENERAL
      else if v = ''news'' then Inr NEWS
      else Inl (ValueError (repr py v @ '' is not a valid TavilySearchTopic'')))"

record TavilySearchToolComponent =
  api_key :: string
  query :: string
  search_depth :: "TavilySearchDepth enum_arg"
  topic :: "TavilySearchTopic enum_arg"
  max_results :: int
  include_images :: bool
  include_answer :: bool

text \<open>The element of the list comprehension (lines 203 to 210).\<close>

definition item_data :: "json \<Rightarrow> exn + Data" where
  "item_data item =
     (case get item ''title'' JNull of
        Inl e \<Rightarrow> Inl e
      | Inr title \<Rightarrow>
     (case get item ''url'' JNull of
        Inl e \<Rightarrow> Inl e
      | Inr url' \<Rightarrow>
     (case get item ''content'' JNull of
        Inl e \<Rightarrow> Inl e
      | Inr content \<Rightarrow>
     (case get item ''score'' JNull of
        Inl e \<Rightarrow> Inl e
      | Inr score \<Rightarrow>
          Inr \<lparr>text = None,
               data = [(''title'', title), (''url'', url'), (''content'', content),
                       (''score'', score)]\<rparr>))))"

fun item_list :: "json list \<Rightarrow> exn + Data list" where
  "item_list [] = Inr []"
| "item_list (item # rest) =
     (case item_data item of
        Inl e \<Rightarrow> Inl e
      | Inr d \<Rightarrow> (case item_list rest of Inl e \<Rightarrow> Inl e | Inr ds \<Rightarrow> Inr (d # ds)))"

text \<open>Lines 202 to 220: the records built from the decoded body.\<close>

definition tool_data_results :: "bool \<Rightarrow> bool \<Rightarrow> json \<Rightarrow> exn + Data list" where
  "tool_data_results include_images' include_answer' resultados =
     (case get resultados ''results'' (JList []) of
        Inl e \<Rightarrow> Inl e
      | Inr results \<Rightarrow>
     (case iter results of
        Inl e \<Rightarrow> Inl e
      | Inr items \<Rightarrow>
     (case item_list items of
        Inl e \<Rightarrow> Inl e
      | Inr data_results \<Rightarrow>
     (case (if include_answer' then get resultados ''answer'' JNull else Inr (JBool False)) of
        Inl e \<Rightarrow> Inl e
      | Inr answer \<Rightarrow>
     (let data_results1 =
            (if truthy answer
             then \<lparr>text = None, data = [(''answer'', answer)]\<rparr> # data_results
             else data_results)
      in case (if include_images' then get resultados ''images'' JNull else Inr (JBool False)) of
           Inl e \<Rightarrow> Inl e
         | Inr images \<Rightarrow>
             Inr (if truthy images
                  then data_results1 @ [\<lparr>text = None, data = [(''images'', images)]\<rparr>]
                  else data_results1))))))"

definition tavily_search_payload ::
  "TavilySearchToolComponent \<Rightarrow> string \<Rightarrow> TavilySearchDepth \<Rightarrow> TavilySearchTopic \<Rightarrow> int \<Rightarrow> bool
     \<Rightarrow> bool \<Rightarrow> (string \<times> json) list" where
  "tavily_search_payload self query' search_depth' topic' max_results' include_images'
       include_answer' =
     [(''api_key'', JStr (api_key self)),
      (''query'', JStr query'),
      (''search_depth'', JStr (depth_value search_depth')),
      (''topic'', JStr (topic_value topic')),
      (''max_results'', JInt max_results'),
      (''include_images'', JBool include_images'),
      (''include_answer'', JBool include_answer')]"

definition tavily_search_request ::
  "TavilySearchToolComponent \<Rightarrow> string \<Rightarrow> TavilySearchDepth \<Rightarrow> TavilySearchTopic \<Rightarrow> int \<Rightarrow> bool
     \<Rightarrow> bool \<Rightarrow> request" where
  "tavily_search_request self query' search_depth' topic' max_results' include_images'
       include_answer' =
     \<lparr>url = tavily_url,
      payload = tavily_search_payload self query' search_depth' topic' max_results'
                  include_images' include_answer',
      headers = tavily_headers\<rparr>"

text \<open>The \<^verbatim>\<open>try\<close> block of \<^verbatim>\<open>_tavily_search\<close> (lines 180 to 222).\<close>

definition tavily_search_try ::
  "TavilySearchToolComponent \<Rightarrow> http_client \<Rightarrow> string \<Rightarrow> TavilySearchDepth \<Rightarrow> TavilySearchTopic
     \<Rightarrow> int \<Rightarrow> bool \<Rightarrow> bool \<Rightarrow> state \<Rightarrow> (exn + Data list) \<times> state" where
  "tavily_search_try self client query' search_depth' topic' max_results' include_images'
       include_answer' st =
     (let request = tavily_search_request self query' search_depth' topic' max_results'
                      include_images' include_answer';
          st1 = st\<lparr>sent := sent st @ [request]\<rparr>
      in case client request of
           Raises e \<Rightarrow> (Inl e, st1)
         | Returns response \<Rightarrow>
             (case raise_for_status response of
                Some m \<Rightarrow> (Inl (HTTPStatusError m response), st1)
              | None \<Rightarrow>
                  (case json response of
                     Inl m \<Rightarrow> (Inl (ValueError m), st1)
                   | Inr resultados \<Rightarrow>
                       (case tool_data_results include_images' include_answer' resultados of
                          Inl e \<Rightarrow> (Inl e, st1)
                        | Inr data_results \<Rightarrow>
                            (Inr data_results, st1\<lparr>status := StatusData data_results\<rparr>)))))"

definition tavily_search ::
  "TavilySearchToolComponent \<Rightarrow> http_client \<Rightarrow> string \<Rightarrow> TavilySearchDepth enum_arg
     \<Rightarrow> TavilySearchTopic enum_arg \<Rightarrow> int \<Rightarrow> bool \<Rightarrow> bool \<Rightarrow> state
     \<Rightarrow> (exn + Data list) \<times> state" where
  "tavily_search self client query' search_depth' topic' max_results' include_images'
       include_answer' st =
     (case search_depth' of
        NotInstance s \<Rightarrow> (Inl (TypeError (''Profundidade de busca inv'' @ a_acute @ ''lida: '' @ s)), st)
      | Instance depth \<Rightarrow>
     (case topic' of
        NotInstance s \<Rightarrow>
          (Inl (TypeError (''T'' @ o_acute @ ''pico de busca inv'' @ a_acute @ ''lido: '' @ s)), st)
      | Instance tp \<Rightarrow>
     (case tavily_search_try self client query' depth tp max_results' include_images'
             include_answer' st of
        (Inr data_results, st1) \<Rightarrow> (Inr data_results, st1)
      | (Inl e, st1) \<Rightarrow>
          (case e of
             HTTPStatusError m response \<Rightarrow>
               (let error_message = ''Erro HTTP: '' @ show_int (status_code response) @ '' - ''
                                      @ response.text response
                in (Inl (ToolException error_message),
                    st1\<lparr>logged := logged st1 @ [(DEBUG, error_message)],
                        status := StatusText error_message\<rparr>))
           | _ \<Rightarrow>
               (let error_message = ''Erro inesperado: '' @ str_exn e
                in (Inl (ToolException error_message),
                    st1\<lparr>logged := logged st1 @ [(DEBUG, ''Erro ao executar busca Tavily'')],
                        status := StatusText error_message\<rparr>))))))"

text \<open>An error record of \<^verbatim>\<open>run_model\<close>: \<^verbatim>\<open>Data(data={"error": error_message})\<close>.\<close>

definition run_model_error :: "string \<Rightarrow> state \<Rightarrow> (exn + Data list) \<times> state" where
  "run_model_error error_message st =
     (Inr [\<lparr>text = None, data = [(''error'', JStr error_message)]\<rparr>],
      st\<lparr>status := StatusText error_message\<rparr>)"

definition run_model ::
  "python \<Rightarrow> TavilySearchToolComponent \<Rightarrow> http_client \<Rightarrow> state \<Rightarrow> (exn + Data list) \<times> state" where
  "run_model py self client st =
     (case (case search_depth self of
              Instance d \<Rightarrow> Inr d
            | NotInstance s \<Rightarrow> TavilySearchDepth_of py (lower py s)) of
        Inl e \<Rightarrow>
          (case e of
             ValueError m \<Rightarrow>
               run_model_error (''Valor de profundidade de busca inv'' @ a_acute @ ''lido: '' @ m) st
           | _ \<Rightarrow> (Inl e, st))
      | Inr search_depth_enum \<Rightarrow>
     (case (case topic self of
              Instance t \<Rightarrow> Inr t
            | NotInstance s \<Rightarrow> TavilySearchTopic_of py (lower py s)) of
        Inl e \<Rightarrow>
          (case e of
             ValueError m \<Rightarrow>
               run_model_error (''Valor de t'' @ o_acute @ ''pico inv'' @ a_acute @ ''lido: '' @ m) st
           | _ \<Rightarrow> (Inl e, st))
      | Inr topic_enum \<Rightarrow>
          tavily_search self client (query self) (Instance search_depth_enum)
            (Instance topic_enum) (max_results self) (include_images self)
            (include_answer self) st))"

section \<open>Notions the statements use\<close>

text \<open>
  The field \<open>k\<close> of a decoded object, \<open>d\<close> when the object has no such field; the
  entries of the \<^verbatim>\<open>results\<close> array of a body; a body of the shape the Tavily API
  documents, as far as the components read it: an object whose \<^verbatim>\<open>results\<close>, when
  present, is an array of objects.
\<close>

definition entry_field :: "json \<Rightarrow> string \<Rightarrow> json \<Rightarrow> json" where
  "entry_field v k d =
     (case v of JObj kvs \<Rightarrow> (case map_of kvs k of None \<Rightarrow> d | Some x \<Rightarrow> x) | _ \<Rightarrow> d)"

definition entries_of :: "json \<Rightarrow> json list" where
  "entries_of body = (case entry_field body ''results'' (JList []) of JList xs \<Rightarrow> xs | _ \<Rightarrow> [])"

fun is_obj :: "json \<Rightarrow> bool" where
  "is_obj (JObj kvs) = True"
| "is_obj v = False"

fun is_list :: "json \<Rightarrow> bool" where
  "is_list (JList xs) = True"
| "is_list v = False"

definition results_shape :: "json \<Rightarrow> bool" where
  "results_shape body =
     (is_obj body \<and> is_list (entry_field body ''results'' (JList []))
      \<and> list_all is_obj (entries_of body))"

text \<open>The four fields of an entry, \<open>d\<close> standing for an absent \<^verbatim>\<open>content\<close>.\<close>

definition entry_fields :: "json \<Rightarrow> json \<Rightarrow> (string \<times> json) list" where
  "entry_fields d entry =
     [(''title'', entry_field entry ''title'' JNull), (''url'', entry_field entry ''url'' JNull),
      (''content'', entry_field entry ''content'' d),
      (''score'', entry_field entry ''score'' JNull)]"

text \<open>
  The record of an entry in \<^verbatim>\<open>fetch_content\<close> and in \<^verbatim>\<open>_tavily_search\<close>, the
  record of a failure in \<^verbatim>\<open>fetch_content\<close>, and the two extras.
\<close>

definition content_record :: "json \<Rightarrow> Data" where
  "content_record entry =
     \<lparr>text = Some (entry_field entry ''content'' (JStr [])), data = entry_fields (JStr []) entry\<rparr>"

definition item_record :: "json \<Rightarrow> Data" where
  "item_record entry = \<lparr>text = None, data = entry_fields JNull entry\<rparr>"

definition error_record :: "string \<Rightarrow> Data" where
  "error_record error_message =
     \<lparr>text = Some (JStr error_message), data = [(''error'', JStr error_message)]\<rparr>"

definition answer_included :: "bool \<Rightarrow> json \<Rightarrow> bool" where
  "answer_included flag body = (flag \<and> truthy (entry_field body ''answer'' JNull))"

definition images_included :: "bool \<Rightarrow> json \<Rightarrow> bool" where
  "images_included flag body = (flag \<and> truthy (entry_field body ''images'' JNull))"

definition answer_record :: "json \<Rightarrow> Data" where
  "answer_record body = \<lparr>text = Some (entry_field body ''answer'' JNull), data = []\<rparr>"

definition images_record :: "json \<Rightarrow> Data" where
  "images_record body =
     \<lparr>text = Some (JStr ''Imagens encontradas''),
      data = [(''images'', entry_field body ''images'' JNull)]\<rparr>"

definition tool_answer_record :: "json \<Rightarrow> Data" where
  "tool_answer_record body =
     \<lparr>text = None, data = [(''answer'', entry_field body ''answer'' JNull)]\<rparr>"

definition tool_images_record :: "json \<Rightarrow> Data" where
  "tool_images_record body =
     \<lparr>text = None, data = [(''images'', entry_field body ''images'' JNull)]\<rparr>"

text \<open>
  The search fails: the POST raises a request error, or the response has an error status,
  or its body is not valid JSON.
\<close>

fun search_fails :: "post_outcome \<Rightarrow> bool" where
  "search_fails (Raises (RequestError m)) = True"
| "search_fails (Raises e) = False"
| "search_fails (Returns r) =
     (case raise_for_status r of
        Some m \<Rightarrow> True
      | None \<Rightarrow> (case json r of Inl m \<Rightarrow> True | Inr v \<Rightarrow> False))"

text \<open>
  An argument names a member of its enum: it is a member, or a string whose lower-case
  form is the value of a member.
\<close>

definition valid_depth :: "python \<Rightarrow> TavilySearchDepth enum_arg \<Rightarrow> bool" where
  "valid_depth py a =
     (case a of
        Instance d \<Rightarrow> True
      | NotInstance s \<Rightarrow> lower py s = ''basic'' \<or> lower py s = ''advanced'')"

definition valid_topic :: "python \<Rightarrow> TavilySearchTopic enum_arg \<Rightarrow> bool" where
  "valid_topic py a =
     (case a of
        Instance t \<Rightarrow> True
      | NotInstance s \<Rightarrow> lower py s = ''general'' \<or> lower py s = ''news'')"

text \<open>The exception of \<^verbatim>\<open>v.get\<close> on a value that is not a dict.\<close>

definition no_get_message :: "json \<Rightarrow> string" where
  "no_get_message v = quoted (type_name v) @ '' object has no attribute '' @ quoted ''get''"

definition attr_error :: "json \<Rightarrow> exn" where
  "attr_error v = AttributeError (no_get_message v)"

text \<open>
  What is wrong with a decoded body, as Python reports it when the body is read for its
  results: the body is not an object; or its \<^verbatim>\<open>results\<close> cannot be iterated; or an
  element the iteration yields is not an object (the first such element is reported; a
  dict yields its keys and a string its characters, which are strings). \<open>None\<close> when
  nothing is wrong.
\<close>

definition body_error :: "json \<Rightarrow> string option" where
  "body_error body =
     (if \<not> is_obj body then Some (no_get_message body)
      else case entry_field body ''results'' (JList []) of
             JList xs \<Rightarrow> map_option no_get_message (find (\<lambda>x. \<not> is_obj x) xs)
           | JObj kvs \<Rightarrow> (if kvs = [] then None else Some (no_get_message (JStr [])))
           | JStr s \<Rightarrow> (if s = [] then None else Some (no_get_message (JStr [])))
           | v \<Rightarrow> Some (quoted (type_name v) @ '' object is not iterable''))"

fun is_status_error :: "exn \<Rightarrow> bool" where
  "is_status_error (HTTPStatusError m r) = True"
| "is_status_error e = False"

section \<open>Instances for the examples\<close>

text \<open>
  A \<^typ>\<open>python\<close> that agrees with Python on ASCII strings without quotes, backslashes
  and control characters.
\<close>

definition ascii_lower :: "string \<Rightarrow> string" where
  "ascii_lower s =
     map (\<lambda>c. case map_of (zip ''ABCDEFGHIJKLMNOPQRSTUVWXYZ'' ''abcdefghijklmnopqrstuvwxyz'') c of
                None \<Rightarrow> c | Some l \<Rightarrow> l) s"

definition ascii_python :: python where
  "ascii_python = \<lparr>lower = ascii_lower, repr = quoted\<rparr>"

definition state0 :: state where
  "state0 = \<lparr>status = Unset, sent = [], logged = []\<rparr>"

definition component0 :: TavilySearchComponent where
  "component0 =
     \<lparr>TavilySearchComponent.api_key = ''key'', TavilySearchComponent.query = ''isabelle'',
      TavilySearchComponent.search_depth = ''avan'' @ c_cedilla @ ''ada'',
      TavilySearchComponent.topic = ''geral'', time_range = None,
      TavilySearchComponent.max_results = 5, TavilySearchComponent.include_images = True,
      TavilySearchComponent.include_answer = True\<rparr>"

definition tool0 :: TavilySearchToolComponent where
  "tool0 =
     \<lparr>api_key = ''key'', query = ''isabelle'', search_depth = Instance ADVANCED,
      topic = Instance GENERAL, max_results = 5, include_images = True, include_answer = True\<rparr>"

definition ok_response :: "json \<Rightarrow> response" where
  "ok_response body =
     \<lparr>status_code = 200, text = ''(body)'', raise_for_status = None, json = Inr body\<rparr>"

definition error_response :: response where
  "error_response =
     \<lparr>status_code = 401, text = ''Unauthorized'',
      raise_for_status = Some ''Client error 401 Unauthorized'', json = Inl ''no JSON''\<rparr>"

definition html_response :: response where
  "html_response =
     \<lparr>status_code = 200, text = ''<html>'', raise_for_status = None,
      json = Inl ''Expecting value: line 1 column 1 (char 0)''\<rparr>"

definition answers :: "response \<Rightarrow> http_client" where
  "answers r = (\<lambda>request. Returns r)"

definition fails :: "exn \<Rightarrow> http_client" where
  "fails e = (\<lambda>request. Raises e)"

definition join_texts :: "string \<Rightarrow> Data list \<Rightarrow> exn + string" where
  "join_texts template' ds =
     (if list_all (\<lambda>d. case Data.text d of Some (JStr s) \<Rightarrow> True | _ \<Rightarrow> False) ds
      then Inr (join [CHR 0x0A]
                  (map (\<lambda>d. case Data.text d of Some (JStr s) \<Rightarrow> s | _ \<Rightarrow> []) ds))
      else Inl (OtherException ''not a string''))"

definition entry1 :: json where
  "entry1 = JObj [(''title'', JStr ''HOL''), (''url'', JStr ''https://isabelle.in.tum.de''),
                  (''content'', JStr ''A proof assistant''), (''score'', JFloat 0.5)]"

definition entry2 :: json where
  "entry2 = JObj [(''title'', JStr ''AFP''), (''url'', JStr ''https://www.isa-afp.org'')]"

definition body1 :: json where
  "body1 = JObj [(''query'', JStr ''isabelle''), (''answer'', JStr ''A prover''),
                 (''images'', JList [JStr ''https://img/1.png'']),
                 (''results'', JList [entry1, entry2])]"

section \<open>Theorems: html\_link\_extractor.py\<close>

text \<open>
  C7. For every component state, \<open>build_document_transformer\<close> returns a
  \<open>LinkExtractorTransformer\<close> that wraps exactly one document extractor, the one adapted
  from an \<open>HtmlLinkExtractor\<close> whose link kind is the component's \<open>kind\<close> input and
  whose fragment-dropping flag is the component's \<open>drop_fragments\<close> input.
\<close>

theorem build_document_transformer_wraps_one_extractor:
  "\<exists>h. link_extractors (build_document_transformer self) = [as_document_extractor h]
      \<and> extractor_kind h = kind self
      \<and> extractor_drop_fragments h = drop_fragments self"
  by (simp add: build_document_transformer_def)

section \<open>Theorems: parse\_dataframe.py\<close>

lemma format_rows_all_formatted:
  "map (format t) rows = map Inr ls \<Longrightarrow> format_rows format t rows acc = Inr (acc @ ls)"
proof (induction rows arbitrary: acc ls)
  case Nil
  then show ?case by simp
next
  case (Cons row rows)
  then obtain l ls' where ls: "ls = l # ls'" by (cases ls) auto
  with Cons.prems have "format t row = Inr l" and "map (format t) rows = map Inr ls'" by auto
  with Cons.IH [of ls' "acc @ [l]"] ls show ?case by simp
qed

lemma format_rows_first_error:
  "map (format t) ok_rows = map Inr ls \<Longrightarrow> format t bad = Inl e \<Longrightarrow>
   format_rows format t (ok_rows @ bad # rest) acc = Inl e"
proof (induction ok_rows arbitrary: acc ls)
  case Nil
  then show ?case by simp
next
  case (Cons row rows)
  then obtain l ls' where ls: "ls = l # ls'" by (cases ls) auto
  with Cons.prems have "format t row = Inr l" and "map (format t) rows = map Inr ls'" by auto
  with Cons.IH [of ls' "acc @ [l]"] Cons.prems(2) show ?case by simp
qed

text \<open>
  C5 (as amended). For every DataFrame, template and separator: when the template formats every row's
  dictionary, \<open>parse_data\<close> produces one message whose text is the formatted rows, in row
  order, joined by the separator, and stores that text in \<open>status\<close>. The template and the
  separator are the ones \<open>clean_args\<close> returns. When formatting a row raises, the first
  such exception leaves \<open>parse_data\<close> and the state is unchanged.
\<close>

theorem parse_data_joins_formatted_rows:
  "(map (format (or_default (template self) ''{text}'')) (df self) = map Inr lines \<longrightarrow>
      parse_data format self st =
        (Inr (Message (join (or_default (sep self) [CHR 0x0A]) lines)),
         st\<lparr>status := StatusText (join (or_default (sep self) [CHR 0x0A]) lines)\<rparr>))
   \<and> (df self = ok_rows @ bad # rest
        \<and> map (format (or_default (template self) ''{text}'')) ok_rows = map Inr lines
        \<and> format (or_default (template self) ''{text}'') bad = Inl e \<longrightarrow>
      parse_data format self st = (Inl e, st))"
proof (intro conjI impI)
  assume "map (format (or_default (template self) ''{text}'')) (df self) = map Inr lines"
  then have "format_rows format (or_default (template self) ''{text}'') (df self) [] = Inr ([] @ lines)"
    by (rule format_rows_all_formatted)
  then show "parse_data format self st =
        (Inr (Message (join (or_default (sep self) [CHR 0x0A]) lines)),
         st\<lparr>status := StatusText (join (or_default (sep self) [CHR 0x0A]) lines)\<rparr>)"
    by (simp add: parse_data_def clean_args_def Let_def)
next
  assume a: "df self = ok_rows @ bad # rest
        \<and> map (format (or_default (template self) ''{text}'')) ok_rows = map Inr lines
        \<and> format (or_default (template self) ''{text}'') bad = Inl e"
  then have "format_rows format (or_default (template self) ''{text}'') (ok_rows @ bad # rest) [] = Inl e"
    by (simp add: format_rows_first_error)
  with a show "parse_data format self st = (Inl e, st)"
    by (simp add: parse_data_def clean_args_def Let_def)
qed

theorem parse_data_joins_formatted_rows_witness:
  "parse_data one_field_format
     \<lparr>df = [[(''text'', ''Ola'')], [(''text'', ''Mundo'')]], template = None, sep = Some '', ''\<rparr> state0
   = (Inr (Message ''Ola, Mundo''), state0\<lparr>status := StatusText ''Ola, Mundo''\<rparr>)
   \<and> parse_data one_field_format
     \<lparr>df = [[(''text'', ''Ola'')], [(''nome'', ''Mundo'')]], template = None, sep = Some '', ''\<rparr> state0
   = (Inl (KeyError (quoted ''text'')), state0)"
  using parse_data_joins_formatted_rows
    [of one_field_format "\<lparr>df = [[(''text'', ''Ola'')], [(''text'', ''Mundo'')]], template = None, sep = Some '', ''\<rparr>"
        "[''Ola'', ''Mundo'']" state0 "[]" "[]" "[]" "KeyError []"]
    parse_data_joins_formatted_rows
    [of one_field_format "\<lparr>df = [[(''text'', ''Ola'')], [(''nome'', ''Mundo'')]], template = None, sep = Some '', ''\<rparr>"
        "[''Ola'']" state0 "[[(''text'', ''Ola'')]]" "[(''nome'', ''Mundo'')]" "[]" "KeyError (quoted ''text'')"]
  by (simp add: one_field_format_def or_default_def state0_def)

text \<open>
  C5 as stated fails: with the default template \<^verbatim>\<open>"{text}"\<close>, a DataFrame that has no
  column \<^verbatim>\<open>text\<close> makes \<^verbatim>\<open>template.format\<close> raise a \<^verbatim>\<open>KeyError\<close>, and \<open>parse_data\<close>
  produces no message.
\<close>

theorem parse_data_missing_column_counterexample:
  "parse_data one_field_format \<lparr>df = [[(''nome'', ''Mundo'')]], template = None, sep = None\<rparr> state0 =
     (Inl (KeyError (quoted ''text'')), state0)"
  by (simp add: parse_data_def clean_args_def or_default_def one_field_format_def Let_def)

lemma parse_data_clean_args:
  "clean_args self = clean_args self' \<Longrightarrow> parse_data format self st = parse_data format self' st"
  by (simp add: parse_data_def)

text \<open>
  C9. A \<open>template\<close> that is \<^verbatim>\<open>None\<close> or empty stands for \<^verbatim>\<open>"{text}"\<close>, and a \<open>sep\<close>
  that is \<^verbatim>\<open>None\<close> or empty stands for the newline: \<open>parse_data\<close> on such inputs equals
  \<open>parse_data\<close> with the default written out.
\<close>

theorem parse_data_defaults:
  "((template self = None \<or> template self = Some []) \<longrightarrow>
      parse_data format self st = parse_data format (self\<lparr>template := Some ''{text}''\<rparr>) st)
   \<and> ((sep self = None \<or> sep self = Some []) \<longrightarrow>
      parse_data format self st = parse_data format (self\<lparr>sep := Some [CHR 0x0A]\<rparr>) st)"
  by (auto intro!: parse_data_clean_args simp add: clean_args_def or_default_def)

theorem parse_data_defaults_witness:
  "parse_data one_field_format \<lparr>df = [[(''text'', ''Ola'')], [(''text'', ''Mundo'')]], template = None, sep = Some []\<rparr> state0
     = parse_data one_field_format \<lparr>df = [[(''text'', ''Ola'')], [(''text'', ''Mundo'')]], template = Some ''{text}'', sep = Some []\<rparr> state0
   \<and> parse_data one_field_format \<lparr>df = [[(''text'', ''Ola'')], [(''text'', ''Mundo'')]], template = None, sep = Some []\<rparr> state0
     = parse_data one_field_format \<lparr>df = [[(''text'', ''Ola'')], [(''text'', ''Mundo'')]], template = None, sep = Some [CHR 0x0A]\<rparr> state0
   \<and> parse_data one_field_format \<lparr>df = [[(''text'', ''Ola'')], [(''text'', ''Mundo'')]], template = None, sep = Some []\<rparr> state0
     = (Inr (Message (''Ola'' @ [CHR 0x0A] @ ''Mundo'')), state0\<lparr>status := StatusText (''Ola'' @ [CHR 0x0A] @ ''Mundo'')\<rparr>)"
  using parse_data_defaults [of "\<lparr>df = [[(''text'', ''Ola'')], [(''text'', ''Mundo'')]], template = None, sep = Some []\<rparr>" one_field_format state0]
  by (simp add: parse_data_def clean_args_def or_default_def one_field_format_def Let_def)

section \<open>Lemmas on the records built from a decoded body\<close>

lemma get_obj: "is_obj v \<Longrightarrow> get v k d = Inr (entry_field v k d)"
  by (cases v) (simp_all add: get_def entry_field_def)

lemma get_Inr: "get v k d = Inr x \<Longrightarrow> is_obj v \<and> x = entry_field v k d"
  by (cases v) (auto simp add: get_def entry_field_def)

lemma get_Inl: "get v k d = Inl e \<Longrightarrow> \<not> is_obj v \<and> (\<exists>m. e = AttributeError m)"
  by (cases v) (auto simp add: get_def)

lemma iter_Inl: "iter v = Inl e \<Longrightarrow> \<exists>m. e = TypeError m"
  by (cases v) (auto simp add: iter_def)

lemma result_data_obj: "is_obj v \<Longrightarrow> result_data v = Inr (content_record v)"
  by (simp add: result_data_def get_obj content_record_def entry_fields_def)

lemma result_data_not_obj: "\<not> is_obj v \<Longrightarrow> \<exists>m. result_data v = Inl (AttributeError m)"
  by (cases v) (simp_all add: result_data_def get_def)

lemma item_data_obj: "is_obj v \<Longrightarrow> item_data v = Inr (item_record v)"
  by (simp add: item_data_def get_obj item_record_def entry_fields_def)

lemma item_data_not_obj: "\<not> is_obj v \<Longrightarrow> \<exists>m. item_data v = Inl (AttributeError m)"
  by (cases v) (simp_all add: item_data_def get_def)

lemma append_results_objs:
  "list_all is_obj items \<Longrightarrow> append_results items acc = Inr (acc @ map content_record items)"
  by (induction items arbitrary: acc) (simp_all add: result_data_obj)

lemma append_results_cases:
  "(list_all is_obj items \<and> append_results items acc = Inr (acc @ map content_record items))
   \<or> (\<not> list_all is_obj items \<and> (\<exists>m. append_results items acc = Inl (AttributeError m)))"
proof (induction items arbitrary: acc)
  case Nil
  then show ?case by simp
next
  case (Cons v items)
  show ?case
  proof (cases "is_obj v")
    case True
    with Cons.IH [of "acc @ [content_record v]"] show ?thesis
      by (auto simp add: result_data_obj)
  next
    case False
    with result_data_not_obj [OF False] show ?thesis by auto
  qed
qed

lemma item_list_cases:
  "(list_all is_obj items \<and> item_list items = Inr (map item_record items))
   \<or> (\<not> list_all is_obj items \<and> (\<exists>m. item_list items = Inl (AttributeError m)))"
proof (induction items)
  case Nil
  then show ?case by simp
next
  case (Cons v items)
  show ?case
  proof (cases "is_obj v")
    case True
    with Cons.IH show ?thesis
      by (auto simp add: item_data_obj)
  next
    case False
    with item_data_not_obj [OF False] show ?thesis by auto
  qed
qed

lemma keys_not_objs: "list_all is_obj (map (\<lambda>kv. JStr (fst kv)) kvs) = (kvs = [])"
  by (cases kvs) simp_all

lemma chars_not_objs: "list_all is_obj (map (\<lambda>c. JStr [c]) s) = (s = [])"
  by (cases s) simp_all

lemma iter_objs:
  "iter (entry_field body ''results'' (JList [])) = Inr items \<Longrightarrow> list_all is_obj items
   \<Longrightarrow> items = entries_of body"
  by (cases "entry_field body ''results'' (JList [])")
     (auto simp add: iter_def entries_of_def keys_not_objs chars_not_objs)

lemma iter_shape:
  "results_shape body \<Longrightarrow> iter (entry_field body ''results'' (JList [])) = Inr (entries_of body)"
  by (cases "entry_field body ''results'' (JList [])")
     (auto simp add: iter_def entries_of_def results_shape_def)

lemma get_not_obj: "\<not> is_obj v \<Longrightarrow> get v k d = Inl (attr_error v)"
  by (cases v) (simp_all add: get_def attr_error_def no_get_message_def)

lemma build_data_results_not_obj:
  "\<not> is_obj body \<Longrightarrow> build_data_results self body = Inl (attr_error body)"
  by (simp add: build_data_results_def get_not_obj)

lemma build_data_results_obj:
  "is_obj body \<Longrightarrow>
   build_data_results self body =
     (case iter (entry_field body ''results'' (JList [])) of
        Inl e \<Rightarrow> Inl e
      | Inr items \<Rightarrow>
          (case append_results items
                  (if answer_included (TavilySearchComponent.include_answer self) body
                   then [answer_record body] else []) of
             Inl e \<Rightarrow> Inl e
           | Inr ds \<Rightarrow>
               Inr (ds @ (if images_included (TavilySearchComponent.include_images self) body
                          then [images_record body] else []))))"
  by (simp add: build_data_results_def get_obj answer_included_def images_included_def
        answer_record_def images_record_def split: sum.split)

lemma build_data_results_Inr:
  assumes "build_data_results self body = Inr ds"
  shows "ds = (if answer_included (TavilySearchComponent.include_answer self) body
               then [answer_record body] else [])
              @ map content_record (entries_of body)
              @ (if images_included (TavilySearchComponent.include_images self) body
                 then [images_record body] else [])"
proof -
  let ?pre = "if answer_included (TavilySearchComponent.include_answer self) body
               then [answer_record body] else []"
  let ?post = "if images_included (TavilySearchComponent.include_images self) body
                 then [images_record body] else []"
  have obj: "is_obj body"
    using assms build_data_results_not_obj [of body self] by auto
  note eq = build_data_results_obj [OF obj, of self]
  from assms obtain items where it: "iter (entry_field body ''results'' (JList [])) = Inr items"
    unfolding eq by (cases "iter (entry_field body ''results'' (JList []))") auto
  from assms it obtain ds1 where ap: "append_results items ?pre = Inr ds1" and ds: "ds = ds1 @ ?post"
    unfolding eq by (cases "append_results items ?pre") auto
  from ap append_results_cases [of items ?pre]
  have objs: "list_all is_obj items" and ds1: "ds1 = ?pre @ map content_record items" by auto
  from iter_objs [OF it objs] ds ds1 show ?thesis by simp
qed

lemma build_data_results_shape:
  assumes "results_shape body"
  shows "build_data_results self body =
           Inr ((if answer_included (TavilySearchComponent.include_answer self) body
               then [answer_record body] else [])
              @ map content_record (entries_of body)
              @ (if images_included (TavilySearchComponent.include_images self) body
                 then [images_record body] else []))"
proof -
  from assms have obj: "is_obj body" and objs: "list_all is_obj (entries_of body)"
    by (simp_all add: results_shape_def)
  show ?thesis
    by (simp add: build_data_results_obj [OF obj] iter_shape [OF assms]
          append_results_objs [OF objs])
qed

lemma build_data_results_Inl:
  assumes "build_data_results self body = Inl e"
  shows "(\<exists>m. e = AttributeError m) \<or> (\<exists>m. e = TypeError m)"
proof (cases "is_obj body")
  case False
  with assms show ?thesis by (auto simp add: build_data_results_not_obj attr_error_def no_get_message_def)
next
  case True
  note eq = build_data_results_obj [OF True, of self]
  show ?thesis
  proof (cases "iter (entry_field body ''results'' (JList []))")
    case (Inl e')
    with assms eq iter_Inl [OF Inl] show ?thesis by simp
  next
    case (Inr items)
    let ?pre = "if answer_included (TavilySearchComponent.include_answer self) body
               then [answer_record body] else []"
    from append_results_cases [of items ?pre] assms show ?thesis
      unfolding eq Inr by (cases "append_results items ?pre") auto
  qed
qed

lemma tool_data_results_not_obj:
  "\<not> is_obj body \<Longrightarrow> tool_data_results imgs ans body = Inl (attr_error body)"
  by (simp add: tool_data_results_def get_not_obj)

lemma tool_data_results_obj:
  "is_obj body \<Longrightarrow>
   tool_data_results imgs ans body =
     (case iter (entry_field body ''results'' (JList [])) of
        Inl e \<Rightarrow> Inl e
      | Inr items \<Rightarrow>
          (case item_list items of
             Inl e \<Rightarrow> Inl e
           | Inr ds \<Rightarrow>
               Inr ((if answer_included ans body then [tool_answer_record body] else [])
                    @ ds
                    @ (if images_included imgs body then [tool_images_record body] else []))))"
  by (simp add: tool_data_results_def get_obj answer_included_def images_included_def
        tool_answer_record_def tool_images_record_def Let_def split: sum.split)

lemma tool_data_results_Inr:
  assumes "tool_data_results imgs ans body = Inr ds"
  shows "ds = (if answer_included ans body then [tool_answer_record body] else [])
              @ map item_record (entries_of body)
              @ (if images_included imgs body then [tool_images_record body] else [])"
proof -
  have obj: "is_obj body"
    using assms tool_data_results_not_obj [of body imgs ans] by auto
  note eq = tool_data_results_obj [OF obj, of imgs ans]
  from assms obtain items where it: "iter (entry_field body ''results'' (JList [])) = Inr items"
    unfolding eq by (cases "iter (entry_field body ''results'' (JList []))") auto
  from assms it obtain ds1 where ap: "item_list items = Inr ds1"
    and ds: "ds = (if answer_included ans body then [tool_answer_record body] else []) @ ds1
                  @ (if images_included imgs body then [tool_images_record body] else [])"
    unfolding eq by (cases "item_list items") auto
  from ap item_list_cases [of items]
  have objs: "list_all is_obj items" and ds1: "ds1 = map item_record items" by auto
  from iter_objs [OF it objs] ds ds1 show ?thesis by simp
qed

lemma tool_data_results_shape:
  assumes "results_shape body"
  shows "tool_data_results imgs ans body =
           Inr ((if answer_included ans body then [tool_answer_record body] else [])
              @ map item_record (entries_of body)
              @ (if images_included imgs body then [tool_images_record body] else []))"
proof -
  from assms have obj: "is_obj body" and objs: "list_all is_obj (entries_of body)"
    by (simp_all add: results_shape_def)
  from item_list_cases [of "entries_of body"] objs
  have "item_list (entries_of body) = Inr (map item_record (entries_of body))" by auto
  then show ?thesis
    by (simp add: tool_data_results_obj [OF obj] iter_shape [OF assms])
qed

lemma fetch_content_try_decoded:
  assumes "client (fetch_content_request self) = Returns r"
    and "raise_for_status r = None" and "json r = Inr body"
  shows "fetch_content_try self client st =
           (build_data_results self body, st\<lparr>sent := sent st @ [fetch_content_request self]\<rparr>)"
  using assms by (simp add: fetch_content_try_def Let_def)

lemma fetch_content_Inr:
  "fetch_content_try self client st = (Inr ds, st1) \<Longrightarrow>
   fetch_content self client st = (Inr ds, st1\<lparr>status := StatusData ds\<rparr>)"
  by (simp add: fetch_content_def)

lemma fetch_content_uncaught:
  "fetch_content_try self client st = (Inl e, st1) \<Longrightarrow>
   (\<exists>m. e = AttributeError m) \<or> (\<exists>m. e = TypeError m) \<Longrightarrow>
   fetch_content self client st = (Inl e, st1)"
  by (auto simp add: fetch_content_def)

lemma fetch_content_decoded_Inr:
  assumes "client (fetch_content_request self) = Returns r"
    and "raise_for_status r = None" and "json r = Inr body"
    and "fst (fetch_content self client st) = Inr ds"
  shows "build_data_results self body = Inr ds"
proof -
  let ?st1 = "st\<lparr>sent := sent st @ [fetch_content_request self]\<rparr>"
  have decoded: "fetch_content_try self client st = (build_data_results self body, ?st1)"
    using assms(1-3) by (rule fetch_content_try_decoded)
  show ?thesis
  proof (cases "build_data_results self body")
    case (Inl e)
    with decoded have "fetch_content_try self client st = (Inl e, ?st1)" by simp
    then have "fetch_content self client st = (Inl e, ?st1)"
      using build_data_results_Inl [OF Inl] by (rule fetch_content_uncaught)
    with assms(4) show ?thesis by simp
  next
    case (Inr ds')
    with decoded have "fetch_content_try self client st = (Inr ds', ?st1)" by simp
    then have "fetch_content self client st = (Inr ds', ?st1\<lparr>status := StatusData ds'\<rparr>)"
      by (rule fetch_content_Inr)
    with assms(4) Inr show ?thesis by simp
  qed
qed

lemma fetch_content_shape:
  assumes "client (fetch_content_request self) = Returns r"
    and "raise_for_status r = None" and "json r = Inr body" and "results_shape body"
  shows "fst (fetch_content self client st) =
           Inr ((if answer_included (TavilySearchComponent.include_answer self) body
                 then [answer_record body] else [])
                @ map content_record (entries_of body)
                @ (if images_included (TavilySearchComponent.include_images self) body
                   then [images_record body] else []))"
proof -
  let ?st1 = "st\<lparr>sent := sent st @ [fetch_content_request self]\<rparr>"
  have "fetch_content_try self client st = (build_data_results self body, ?st1)"
    using assms(1-3) by (rule fetch_content_try_decoded)
  then show ?thesis
    by (simp add: build_data_results_shape [OF assms(4)] fetch_content_def)
qed

lemma tavily_search_try_decoded:
  assumes "client (tavily_search_request self q d t n imgs ans) = Returns r"
    and "raise_for_status r = None" and "json r = Inr body"
  shows "tavily_search_try self client q d t n imgs ans st =
           (case tool_data_results imgs ans body of
              Inl e \<Rightarrow> (Inl e, st\<lparr>sent := sent st @ [tavily_search_request self q d t n imgs ans]\<rparr>)
            | Inr ds \<Rightarrow> (Inr ds, st\<lparr>sent := sent st @ [tavily_search_request self q d t n imgs ans],
                                  status := StatusData ds\<rparr>))"
  using assms by (simp add: tavily_search_try_def Let_def split: sum.split)

lemma tavily_search_Inr:
  "fst (tavily_search self client q (Instance d) (Instance t) n imgs ans st) = Inr ds \<longleftrightarrow>
   fst (tavily_search_try self client q d t n imgs ans st) = Inr ds"
  by (cases "tavily_search_try self client q d t n imgs ans st")
     (auto simp add: tavily_search_def Let_def split: sum.splits exn.splits)

lemma tavily_search_shape:
  assumes "client (tavily_search_request self q d t n imgs ans) = Returns r"
    and "raise_for_status r = None" and "json r = Inr body" and "results_shape body"
  shows "fst (tavily_search self client q (Instance d) (Instance t) n imgs ans st) =
           Inr ((if answer_included ans body then [tool_answer_record body] else [])
                @ map item_record (entries_of body)
                @ (if images_included imgs body then [tool_images_record body] else []))"
proof -
  have "fst (tavily_search_try self client q d t n imgs ans st) =
           Inr ((if answer_included ans body then [tool_answer_record body] else [])
                @ map item_record (entries_of body)
                @ (if images_included imgs body then [tool_images_record body] else []))"
    unfolding tavily_search_try_decoded [of client self q d t n imgs ans r body st, OF assms(1-3)]
    by (simp add: tool_data_results_shape [OF assms(4)])
  then show ?thesis by (simp only: tavily_search_Inr)
qed

lemma tavily_search_decoded_Inr:
  assumes "client (tavily_search_request self q d t n imgs ans) = Returns r"
    and "raise_for_status r = None" and "json r = Inr body"
    and "fst (tavily_search self client q (Instance d) (Instance t) n imgs ans st) = Inr ds"
  shows "tool_data_results imgs ans body = Inr ds"
proof -
  from assms(4) have "fst (tavily_search_try self client q d t n imgs ans st) = Inr ds"
    by (simp only: tavily_search_Inr)
  then show ?thesis
    unfolding tavily_search_try_decoded [of client self q d t n imgs ans r body st, OF assms(1-3)]
    by (cases "tool_data_results imgs ans body") auto
qed

section \<open>Theorems: the Tavily components\<close>

text \<open>
  C1 (as amended). For every response with a success status whose JSON body is an object
  in which \<^verbatim>\<open>results\<close> is absent or an array of objects, \<open>fetch_content\<close> and
  \<open>_tavily_search\<close> return a list that contains, in order, one record per entry of
  \<^verbatim>\<open>results\<close>; the record's data holds \<^verbatim>\<open>title\<close>, \<^verbatim>\<open>url\<close>, \<^verbatim>\<open>content\<close> and
  \<^verbatim>\<open>score\<close> of the entry, \<^verbatim>\<open>None\<close> standing for an absent field (the empty string for
  an absent \<^verbatim>\<open>content\<close> in \<open>fetch_content\<close>).
\<close>

theorem search_returns_one_record_per_result:
  assumes "raise_for_status r = None" and "json r = Inr body" and "results_shape body"
  shows "(client (fetch_content_request self) = Returns r \<longrightarrow>
            (\<exists>pre post. fst (fetch_content self client st) =
                          Inr (pre @ map content_record (entries_of body) @ post)))
         \<and> (client' (tavily_search_request tool q d t n imgs ans) = Returns r \<longrightarrow>
            (\<exists>pre post. fst (tavily_search tool client' q (Instance d) (Instance t) n imgs ans st') =
                          Inr (pre @ map item_record (entries_of body) @ post)))"
proof (intro conjI impI)
  assume "client (fetch_content_request self) = Returns r"
  then show "\<exists>pre post. fst (fetch_content self client st) =
                          Inr (pre @ map content_record (entries_of body) @ post)"
    using assms fetch_content_shape [of client self r body st] by blast
next
  assume "client' (tavily_search_request tool q d t n imgs ans) = Returns r"
  then show "\<exists>pre post. fst (tavily_search tool client' q (Instance d) (Instance t) n imgs ans st') =
                          Inr (pre @ map item_record (entries_of body) @ post)"
    using assms tavily_search_shape [of client' tool q d t n imgs ans r body st'] by blast
qed

lemmas example_defs =
  component0_def tool0_def state0_def answers_def fails_def ok_response_def error_response_def
  html_response_def body1_def entry1_def entry2_def

lemmas model_defs =
  fetch_content_def fetch_content_try_def fetch_content_request_def fetch_content_payload_def
  build_data_results_def error_return_def tavily_search_def tavily_search_try_def
  tavily_search_request_def tavily_search_payload_def tool_data_results_def
  result_data_def item_data_def get_def iter_def tavily_url_def tavily_headers_def opt_str_def
  Let_def

text \<open>The body \<open>body1\<close> has two entries, an answer and an image.\<close>

theorem search_returns_one_record_per_result_witness:
  "results_shape body1
   \<and> (\<exists>pre post. fst (fetch_content component0 (answers (ok_response body1)) state0) =
                     Inr (pre @ map content_record [entry1, entry2] @ post))
   \<and> (\<exists>pre post. fst (tavily_search tool0 (answers (ok_response body1)) ''isabelle''
                          (Instance BASIC) (Instance NEWS) 3 True True state0) =
                     Inr (pre @ map item_record [entry1, entry2] @ post))"
proof -
  have entries: "entries_of body1 = [entry1, entry2]"
    by (simp add: entries_of_def entry_field_def body1_def)
  have shape: "results_shape body1"
    by (simp add: results_shape_def entries) (simp add: entry_field_def body1_def entry1_def entry2_def)
  show ?thesis
    using search_returns_one_record_per_result
      [of "ok_response body1" body1 "answers (ok_response body1)" component0 state0
          "answers (ok_response body1)" tool0 "''isabelle''" BASIC NEWS 3 True True state0]
    by (simp add: shape entries answers_def ok_response_def)
qed

text \<open>
  C1 as stated fails. A response with status 200 whose body is the valid JSON
  \<^verbatim>\<open>{"results": ["x"]}\<close>, or \<^verbatim>\<open>[]\<close>, makes \<^verbatim>\<open>get\<close> fail on a value that is not
  a dict: \<open>fetch_content\<close> lets the \<^verbatim>\<open>AttributeError\<close> escape and \<open>_tavily_search\<close>
  raises a \<^verbatim>\<open>ToolException\<close>; neither returns a list.
\<close>

theorem search_on_unexpected_body_counterexample:
  "raise_for_status (ok_response (JObj [(''results'', JList [JStr ''x''])])) = None
   \<and> json (ok_response (JObj [(''results'', JList [JStr ''x''])])) =
       Inr (JObj [(''results'', JList [JStr ''x''])])
   \<and> fst (fetch_content component0 (answers (ok_response (JObj [(''results'', JList [JStr ''x''])])))
            state0) =
       Inl (AttributeError (quoted ''str'' @ '' object has no attribute '' @ quoted ''get''))
   \<and> fst (tavily_search tool0 (answers (ok_response (JObj [(''results'', JList [JStr ''x''])])))
            ''isabelle'' (Instance BASIC) (Instance NEWS) 3 True True state0) =
       Inl (ToolException (''Erro inesperado: '' @ quoted ''str''
                           @ '' object has no attribute '' @ quoted ''get''))
   \<and> json (ok_response (JList [])) = Inr (JList [])
   \<and> fst (fetch_content component0 (answers (ok_response (JList []))) state0) =
       Inl (AttributeError (quoted ''list'' @ '' object has no attribute '' @ quoted ''get''))"
  by (simp add: model_defs example_defs)

lemma extras_shape:
  assumes "ds = (if a then [x] else []) @ map f es @ (if b then [y] else [])"
  shows "(a \<longrightarrow> ds \<noteq> [] \<and> hd ds = x) \<and> (b \<longrightarrow> ds \<noteq> [] \<and> last ds = y)
         \<and> length ds = length es + (if a then 1 else 0) + (if b then 1 else 0)"
  using assms by auto

text \<open>
  C8. For every response with a success status and a decoded body, and every list that
  \<open>fetch_content\<close> or \<open>_tavily_search\<close> returns for it: when the answer flag is set and
  the body has a true (non-empty) \<^verbatim>\<open>answer\<close>, the answer record is the first element;
  when the images flag is set and the body has a true (non-empty) \<^verbatim>\<open>images\<close>, the images
  record is the last element; and the length of the list is the number of entries of
  \<^verbatim>\<open>results\<close> plus one for each of the two extras that is included.
\<close>

theorem answer_first_images_last:
  assumes "raise_for_status r = None" and "json r = Inr body"
  shows "(client (fetch_content_request self) = Returns r
            \<and> fst (fetch_content self client st) = Inr ds \<longrightarrow>
              (answer_included (TavilySearchComponent.include_answer self) body \<longrightarrow>
                 ds \<noteq> [] \<and> hd ds = answer_record body)
            \<and> (images_included (TavilySearchComponent.include_images self) body \<longrightarrow>
                 ds \<noteq> [] \<and> last ds = images_record body)
            \<and> length ds = length (entries_of body)
                 + (if answer_included (TavilySearchComponent.include_answer self) body then 1 else 0)
                 + (if images_included (TavilySearchComponent.include_images self) body then 1 else 0))
         \<and> (client' (tavily_search_request tool q d t n imgs ans) = Returns r
            \<and> fst (tavily_search tool client' q (Instance d) (Instance t) n imgs ans st') = Inr ds' \<longrightarrow>
              (answer_included ans body \<longrightarrow> ds' \<noteq> [] \<and> hd ds' = tool_answer_record body)
            \<and> (images_included imgs body \<longrightarrow> ds' \<noteq> [] \<and> last ds' = tool_images_record body)
            \<and> length ds' = length (entries_of body)
                 + (if answer_included ans body then 1 else 0)
                 + (if images_included imgs body then 1 else 0))"
proof (rule conjI; rule impI; elim conjE)
  assume "client (fetch_content_request self) = Returns r"
    and "fst (fetch_content self client st) = Inr ds"
  with assms have "build_data_results self body = Inr ds"
    by (simp add: fetch_content_decoded_Inr)
  then show "(answer_included (TavilySearchComponent.include_answer self) body \<longrightarrow>
                 ds \<noteq> [] \<and> hd ds = answer_record body)
            \<and> (images_included (TavilySearchComponent.include_images self) body \<longrightarrow>
                 ds \<noteq> [] \<and> last ds = images_record body)
            \<and> length ds = length (entries_of body)
                 + (if answer_included (TavilySearchComponent.include_answer self) body then 1 else 0)
                 + (if images_included (TavilySearchComponent.include_images self) body then 1 else 0)"
    by (rule extras_shape [OF build_data_results_Inr])
next
  assume "client' (tavily_search_request tool q d t n imgs ans) = Returns r"
    and "fst (tavily_search tool client' q (Instance d) (Instance t) n imgs ans st') = Inr ds'"
  with assms have "tool_data_results imgs ans body = Inr ds'"
    by (simp add: tavily_search_decoded_Inr)
  then show "(answer_included ans body \<longrightarrow> ds' \<noteq> [] \<and> hd ds' = tool_answer_record body)
            \<and> (images_included imgs body \<longrightarrow> ds' \<noteq> [] \<and> last ds' = tool_images_record body)
            \<and> length ds' = length (entries_of body)
                 + (if answer_included ans body then 1 else 0)
                 + (if images_included imgs body then 1 else 0)"
    by (rule extras_shape [OF tool_data_results_Inr])
qed

theorem answer_first_images_last_witness:
  "(\<exists>ds. fst (fetch_content component0 (answers (ok_response body1)) state0) = Inr ds
         \<and> hd ds = \<lparr>text = Some (JStr ''A prover''), data = []\<rparr>
         \<and> last ds = \<lparr>text = Some (JStr ''Imagens encontradas''),
                       data = [(''images'', JList [JStr ''https://img/1.png''])]\<rparr>
         \<and> length ds = 4)
   \<and> (\<exists>ds. fst (tavily_search tool0 (answers (ok_response body1)) ''isabelle''
                  (Instance BASIC) (Instance NEWS) 3 True True state0) = Inr ds
         \<and> hd ds = \<lparr>text = None, data = [(''answer'', JStr ''A prover'')]\<rparr>
         \<and> last ds = \<lparr>text = None, data = [(''images'', JList [JStr ''https://img/1.png''])]\<rparr>
         \<and> length ds = 4)"
proof -
  obtain ds where ds: "fst (fetch_content component0 (answers (ok_response body1)) state0) = Inr ds"
    by (simp add: model_defs example_defs)
  obtain ds' where ds': "fst (tavily_search tool0 (answers (ok_response body1)) ''isabelle''
                  (Instance BASIC) (Instance NEWS) 3 True True state0) = Inr ds'"
    by (simp add: model_defs example_defs)
  have entries: "length (entries_of body1) = 2"
    by (simp add: entries_of_def entry_field_def body1_def)
  have incl: "answer_included True body1" "images_included True body1"
    by (simp_all add: answer_included_def images_included_def entry_field_def body1_def)
  have recs: "answer_record body1 = \<lparr>text = Some (JStr ''A prover''), data = []\<rparr>"
    "images_record body1 = \<lparr>text = Some (JStr ''Imagens encontradas''),
                       data = [(''images'', JList [JStr ''https://img/1.png''])]\<rparr>"
    "tool_answer_record body1 = \<lparr>text = None, data = [(''answer'', JStr ''A prover'')]\<rparr>"
    "tool_images_record body1 = \<lparr>text = None, data = [(''images'', JList [JStr ''https://img/1.png''])]\<rparr>"
    by (simp_all add: answer_record_def images_record_def tool_answer_record_def
          tool_images_record_def entry_field_def body1_def)
  have flags: "TavilySearchComponent.include_answer component0"
    "TavilySearchComponent.include_images component0"
    by (simp_all add: component0_def)
  show ?thesis
    using answer_first_images_last
      [of "ok_response body1" body1 "answers (ok_response body1)" component0 state0 ds
          "answers (ok_response body1)" tool0 "''isabelle''" BASIC NEWS 3 True True state0 ds']
      ds ds'
    by (simp add: entries incl recs flags answers_def ok_response_def)
qed

text \<open>
  C2. When \<^verbatim>\<open>raise_for_status\<close> raises, when the POST raises a request error, and when
  the body is not valid JSON, \<open>fetch_content\<close> returns a list of one record whose text is
  the error message and whose \<^verbatim>\<open>error\<close> field is the same message.
\<close>

theorem fetch_content_failure_returns_error_record:
  "(client (fetch_content_request self) = Returns r \<and> raise_for_status r = Some m \<longrightarrow>
      fst (fetch_content self client st) =
        Inr [error_record (''Erro HTTP ocorrido: '' @ show_int (status_code r) @ '' - ''
                           @ response.text r)])
   \<and> (client (fetch_content_request self) = Raises (RequestError m) \<longrightarrow>
      fst (fetch_content self client st) =
        Inr [error_record (''Erro de requisi'' @ c_cedilla @ a_tilde @ ''o ocorrido: '' @ m)])
   \<and> (client (fetch_content_request self) = Returns r \<and> raise_for_status r = None
        \<and> json r = Inl m \<longrightarrow>
      fst (fetch_content self client st) =
        Inr [error_record (''Formato de resposta inv'' @ a_acute @ ''lido: '' @ m)])"
  by (simp add: fetch_content_def fetch_content_try_def error_return_def error_record_def Let_def)

theorem fetch_content_failure_returns_error_record_witness:
  "fst (fetch_content component0 (answers error_response) state0) =
     Inr [\<lparr>text = Some (JStr ''Erro HTTP ocorrido: 401 - Unauthorized''),
           data = [(''error'', JStr ''Erro HTTP ocorrido: 401 - Unauthorized'')]\<rparr>]
   \<and> fst (fetch_content component0 (fails (RequestError ''timed out'')) state0) =
     Inr [\<lparr>text = Some (JStr (''Erro de requisi'' @ c_cedilla @ a_tilde @ ''o ocorrido: timed out'')),
           data = [(''error'', JStr (''Erro de requisi'' @ c_cedilla @ a_tilde @ ''o ocorrido: timed out''))]\<rparr>]
   \<and> fst (fetch_content component0 (answers html_response) state0) =
     Inr [\<lparr>text = Some (JStr (''Formato de resposta inv'' @ a_acute
                                @ ''lido: Expecting value: line 1 column 1 (char 0)'')),
           data = [(''error'', JStr (''Formato de resposta inv'' @ a_acute
                                @ ''lido: Expecting value: line 1 column 1 (char 0)''))]\<rparr>]"
  using fetch_content_failure_returns_error_record
      [of "answers error_response" component0 error_response "''Client error 401 Unauthorized''" state0]
    fetch_content_failure_returns_error_record
      [of "fails (RequestError ''timed out'')" component0 error_response "''timed out''" state0]
    fetch_content_failure_returns_error_record
      [of "answers html_response" component0 html_response
          "''Expecting value: line 1 column 1 (char 0)''" state0]
  by (simp add: answers_def fails_def error_response_def html_response_def error_record_def
        show_int_def show_nat.simps digit_def)

lemma fetch_content_search_fails:
  assumes "search_fails (client (fetch_content_request self))"
  shows "\<exists>msg. fst (fetch_content self client st) = Inr [error_record msg]"
proof (cases "client (fetch_content_request self)")
  case (Raises e)
  with assms show ?thesis
    by (cases e)
       (simp_all add: fetch_content_def fetch_content_try_def error_return_def error_record_def Let_def)
next
  case (Returns r)
  with assms show ?thesis
    by (cases "raise_for_status r"; cases "json r")
       (simp_all add: fetch_content_def fetch_content_try_def error_return_def error_record_def Let_def)
qed

text \<open>
  C10. For every component, environment and host renderer \<open>data_to_text\<close>: when
  \<open>fetch_content\<close> returns the records \<open>ds\<close>, \<open>fetch_content_text\<close> returns the message
  whose text is the \<^verbatim>\<open>"{text}"\<close> rendering of \<open>ds\<close>, and an exception of \<open>fetch_content\<close>
  is the exception of \<open>fetch_content_text\<close>. When the search fails, \<open>fetch_content\<close> does
  not raise: the list rendered is the one error record, and with a renderer that renders
  that record as its text the message text is the error message.
\<close>

theorem fetch_content_text_renders_fetch_content:
  "(fst (fetch_content self client st) = Inr ds \<and> data_to_text ''{text}'' ds = Inr s \<longrightarrow>
      fst (fetch_content_text data_to_text self client st) = Inr (Message s))
   \<and> (fst (fetch_content self client st) = Inl e \<longrightarrow>
      fst (fetch_content_text data_to_text self client st) = Inl e)
   \<and> (search_fails (client (fetch_content_request self)) \<longrightarrow>
      (\<exists>msg. fst (fetch_content self client st) = Inr [error_record msg]
         \<and> (data_to_text ''{text}'' [error_record msg] = Inr msg \<longrightarrow>
              fst (fetch_content_text data_to_text self client st) = Inr (Message msg))))"
proof (intro conjI impI)
  assume "fst (fetch_content self client st) = Inr ds \<and> data_to_text ''{text}'' ds = Inr s"
  then show "fst (fetch_content_text data_to_text self client st) = Inr (Message s)"
    by (cases "fetch_content self client st") (simp add: fetch_content_text_def)
next
  assume "fst (fetch_content self client st) = Inl e"
  then show "fst (fetch_content_text data_to_text self client st) = Inl e"
    by (cases "fetch_content self client st") (simp add: fetch_content_text_def)
next
  assume "search_fails (client (fetch_content_request self))"
  then obtain msg where msg: "fst (fetch_content self client st) = Inr [error_record msg]"
    using fetch_content_search_fails by blast
  have "data_to_text ''{text}'' [error_record msg] = Inr msg \<longrightarrow>
          fst (fetch_content_text data_to_text self client st) = Inr (Message msg)"
    using msg by (cases "fetch_content self client st") (simp add: fetch_content_text_def)
  with msg show "\<exists>msg. fst (fetch_content self client st) = Inr [error_record msg]
         \<and> (data_to_text ''{text}'' [error_record msg] = Inr msg \<longrightarrow>
              fst (fetch_content_text data_to_text self client st) = Inr (Message msg))"
    by blast
qed

theorem fetch_content_text_renders_fetch_content_witness:
  "fst (fetch_content_text join_texts component0 (answers (ok_response body1)) state0) =
     Inr (Message (''A prover'' @ [CHR 0x0A] @ ''A proof assistant'' @ [CHR 0x0A] @ [CHR 0x0A]
                   @ ''Imagens encontradas''))
   \<and> fst (fetch_content_text join_texts component0 (answers (ok_response (JList []))) state0) =
     Inl (attr_error (JList []))
   \<and> search_fails (answers error_response (fetch_content_request component0))
   \<and> fst (fetch_content_text join_texts component0 (answers error_response) state0) =
     Inr (Message ''Erro HTTP ocorrido: 401 - Unauthorized'')"
proof -
  obtain ds where ds: "fst (fetch_content component0 (answers (ok_response body1)) state0) = Inr ds"
    and s: "join_texts ''{text}'' ds =
              Inr (''A prover'' @ [CHR 0x0A] @ ''A proof assistant'' @ [CHR 0x0A] @ [CHR 0x0A]
                   @ ''Imagens encontradas'')"
    by (simp add: model_defs example_defs join_texts_def)
  have raised: "fst (fetch_content component0 (answers (ok_response (JList []))) state0) =
                  Inl (attr_error (JList []))"
    by (simp add: model_defs example_defs attr_error_def no_get_message_def)
  have fails: "search_fails (answers error_response (fetch_content_request component0))"
    by (simp add: answers_def error_response_def)
  have err: "fst (fetch_content component0 (answers error_response) state0) =
               Inr [error_record ''Erro HTTP ocorrido: 401 - Unauthorized'']"
    by (simp add: model_defs example_defs error_record_def show_int_def show_nat.simps digit_def)
  have render: "\<And>msg. join_texts ''{text}'' [error_record msg] = Inr msg"
    by (simp add: join_texts_def error_record_def)
  from fetch_content_text_renders_fetch_content
      [of component0 "answers (ok_response body1)" state0 ds join_texts
          "''A prover'' @ [CHR 0x0A] @ ''A proof assistant'' @ [CHR 0x0A] @ [CHR 0x0A]
                   @ ''Imagens encontradas''" "attr_error (JList [])"]
    ds s
  have first: "fst (fetch_content_text join_texts component0 (answers (ok_response body1)) state0) =
     Inr (Message (''A prover'' @ [CHR 0x0A] @ ''A proof assistant'' @ [CHR 0x0A] @ [CHR 0x0A]
                   @ ''Imagens encontradas''))"
    by simp
  from fetch_content_text_renders_fetch_content
      [of component0 "answers (ok_response (JList []))" state0 ds join_texts "[]"
          "attr_error (JList [])"]
    raised
  have second: "fst (fetch_content_text join_texts component0 (answers (ok_response (JList [])))
                       state0) = Inl (attr_error (JList []))"
    by simp
  from fetch_content_text_renders_fetch_content
      [of component0 "answers error_response" state0 ds join_texts "[]" "attr_error (JList [])"]
    fails err render
  have "fst (fetch_content_text join_texts component0 (answers error_response) state0) =
     Inr (Message ''Erro HTTP ocorrido: 401 - Unauthorized'')"
    by (auto simp add: error_record_def)
  with first second fails show ?thesis by simp
qed

lemma tavily_search_status_error:
  "fst (tavily_search_try self client q d t n imgs ans st) = Inl (HTTPStatusError m r) \<Longrightarrow>
   fst (tavily_search self client q (Instance d) (Instance t) n imgs ans st) =
     Inl (ToolException (''Erro HTTP: '' @ show_int (status_code r) @ '' - '' @ response.text r))"
  by (cases "tavily_search_try self client q d t n imgs ans st")
     (simp add: tavily_search_def Let_def)

lemma tavily_search_other_error:
  "fst (tavily_search_try self client q d t n imgs ans st) = Inl e \<Longrightarrow> \<not> is_status_error e \<Longrightarrow>
   fst (tavily_search self client q (Instance d) (Instance t) n imgs ans st) =
     Inl (ToolException (''Erro inesperado: '' @ str_exn e))"
  by (cases "tavily_search_try self client q d t n imgs ans st"; cases e)
     (simp_all add: tavily_search_def Let_def)

lemma item_data_attr_error: "\<not> is_obj v \<Longrightarrow> item_data v = Inl (attr_error v)"
  by (simp add: item_data_def get_not_obj)

lemma item_list_first_non_obj:
  "find (\<lambda>x. \<not> is_obj x) xs = Some x \<Longrightarrow> item_list xs = Inl (attr_error x)"
proof (induction xs)
  case Nil
  then show ?case by simp
next
  case (Cons v xs)
  show ?case
  proof (cases "is_obj v")
    case True
    with Cons show ?thesis by (simp add: item_data_obj)
  next
    case False
    with Cons.prems show ?thesis by (simp add: item_data_attr_error)
  qed
qed

lemma item_list_key: "kvs \<noteq> [] \<Longrightarrow> item_list (map (\<lambda>kv. JStr (fst kv)) kvs) = Inl (attr_error (JStr []))"
  by (cases kvs) (simp_all add: item_data_attr_error attr_error_def no_get_message_def)

lemma item_list_char: "s \<noteq> [] \<Longrightarrow> item_list (map (\<lambda>c. JStr [c]) s) = Inl (attr_error (JStr []))"
  by (cases s) (simp_all add: item_data_attr_error attr_error_def no_get_message_def)

lemma tool_data_results_body_error:
  assumes "body_error body = Some m"
  shows "\<exists>e. tool_data_results imgs ans body = Inl e \<and> str_exn e = m \<and> \<not> is_status_error e"
proof (cases "is_obj body")
  case False
  with assms show ?thesis
    by (simp add: tool_data_results_not_obj body_error_def attr_error_def no_get_message_def)
next
  case True
  note eq = tool_data_results_obj [OF True, of imgs ans]
  show ?thesis
  proof (cases "entry_field body ''results'' (JList [])")
    case (JList xs)
    with assms True obtain x where "find (\<lambda>x. \<not> is_obj x) xs = Some x" and "m = no_get_message x"
      by (auto simp add: body_error_def)
    with JList show ?thesis
      by (simp add: eq iter_def item_list_first_non_obj attr_error_def no_get_message_def)
  next
    case (JObj kvs)
    with assms True have "kvs \<noteq> []" and "m = no_get_message (JStr [])"
      by (auto simp add: body_error_def split: if_splits)
    with JObj show ?thesis
      by (simp add: eq iter_def item_list_key attr_error_def no_get_message_def)
  next
    case (JStr s)
    with assms True have "s \<noteq> []" and "m = no_get_message (JStr [])"
      by (auto simp add: body_error_def split: if_splits)
    with JStr show ?thesis
      by (simp add: eq iter_def item_list_char attr_error_def no_get_message_def)
  qed (use assms True in \<open>auto simp add: eq iter_def body_error_def\<close>)
qed

lemma tavily_search_outcomes:
  "(\<exists>ds. fst (tavily_search self client q (Instance d) (Instance t) n imgs ans st) = Inr ds)
   \<or> (\<exists>msg. fst (tavily_search self client q (Instance d) (Instance t) n imgs ans st) =
              Inl (ToolException msg))"
proof (cases "tavily_search_try self client q d t n imgs ans st")
  case (Pair res st1)
  show ?thesis
  proof (cases res)
    case (Inl e)
    with Pair show ?thesis by (cases e) (simp_all add: tavily_search_def Let_def)
  next
    case (Inr ds)
    with Pair show ?thesis by (simp add: tavily_search_def)
  qed
qed

text \<open>
  C3. With members of the two enums as arguments, every failure of the search is raised as
  a \<^verbatim>\<open>ToolException\<close> that carries the message: when \<^verbatim>\<open>raise_for_status\<close> raises,
  the message gives the status code and the response text; when the POST raises another
  exception, when the body is not valid JSON, and when the decoded body cannot be read
  (it is not an object, its \<^verbatim>\<open>results\<close> cannot be iterated, or an entry is not an
  object), the message ends with the text of that exception. No other exception leaves
  \<open>_tavily_search\<close>: it returns a list or raises a \<^verbatim>\<open>ToolException\<close>.
\<close>

theorem tavily_search_failure_raises_tool_exception:
  "(client (tavily_search_request self q d t n imgs ans) = Returns r
      \<and> raise_for_status r = Some m \<longrightarrow>
        fst (tavily_search self client q (Instance d) (Instance t) n imgs ans st) =
          Inl (ToolException (''Erro HTTP: '' @ show_int (status_code r) @ '' - ''
                              @ response.text r)))
   \<and> (client (tavily_search_request self q d t n imgs ans) = Raises e \<and> \<not> is_status_error e \<longrightarrow>
        fst (tavily_search self client q (Instance d) (Instance t) n imgs ans st) =
          Inl (ToolException (''Erro inesperado: '' @ str_exn e)))
   \<and> (client (tavily_search_request self q d t n imgs ans) = Returns r
      \<and> raise_for_status r = None \<and> json r = Inl m \<longrightarrow>
        fst (tavily_search self client q (Instance d) (Instance t) n imgs ans st) =
          Inl (ToolException (''Erro inesperado: '' @ m)))
   \<and> (client (tavily_search_request self q d t n imgs ans) = Returns r
      \<and> raise_for_status r = None \<and> json r = Inr body \<and> body_error body = Some m \<longrightarrow>
        fst (tavily_search self client q (Instance d) (Instance t) n imgs ans st) =
          Inl (ToolException (''Erro inesperado: '' @ m)))
   \<and> ((\<exists>ds. fst (tavily_search self client q (Instance d) (Instance t) n imgs ans st) = Inr ds)
      \<or> (\<exists>msg. fst (tavily_search self client q (Instance d) (Instance t) n imgs ans st) =
              Inl (ToolException msg)))"
proof (intro conjI impI)
  assume "client (tavily_search_request self q d t n imgs ans) = Returns r
      \<and> raise_for_status r = Some m"
  then have "fst (tavily_search_try self client q d t n imgs ans st) = Inl (HTTPStatusError m r)"
    by (simp add: tavily_search_try_def Let_def)
  then show "fst (tavily_search self client q (Instance d) (Instance t) n imgs ans st) =
          Inl (ToolException (''Erro HTTP: '' @ show_int (status_code r) @ '' - ''
                              @ response.text r))"
    by (rule tavily_search_status_error)
next
  assume a: "client (tavily_search_request self q d t n imgs ans) = Raises e \<and> \<not> is_status_error e"
  then have "fst (tavily_search_try self client q d t n imgs ans st) = Inl e"
    by (simp add: tavily_search_try_def Let_def)
  with a show "fst (tavily_search self client q (Instance d) (Instance t) n imgs ans st) =
          Inl (ToolException (''Erro inesperado: '' @ str_exn e))"
    by (simp add: tavily_search_other_error)
next
  assume "client (tavily_search_request self q d t n imgs ans) = Returns r
      \<and> raise_for_status r = None \<and> json r = Inl m"
  then have "fst (tavily_search_try self client q d t n imgs ans st) = Inl (ValueError m)"
    by (simp add: tavily_search_try_def Let_def)
  then have "fst (tavily_search self client q (Instance d) (Instance t) n imgs ans st) =
          Inl (ToolException (''Erro inesperado: '' @ str_exn (ValueError m)))"
    by (rule tavily_search_other_error) simp
  then show "fst (tavily_search self client q (Instance d) (Instance t) n imgs ans st) =
          Inl (ToolException (''Erro inesperado: '' @ m))"
    by simp
next
  assume a: "client (tavily_search_request self q d t n imgs ans) = Returns r
      \<and> raise_for_status r = None \<and> json r = Inr body \<and> body_error body = Some m"
  then obtain e' where e': "tool_data_results imgs ans body = Inl e'" "str_exn e' = m"
      "\<not> is_status_error e'"
    using tool_data_results_body_error [of body m imgs ans] by blast
  from a have "tavily_search_try self client q d t n imgs ans st =
           (case tool_data_results imgs ans body of
              Inl e \<Rightarrow> (Inl e, st\<lparr>sent := sent st @ [tavily_search_request self q d t n imgs ans]\<rparr>)
            | Inr ds \<Rightarrow> (Inr ds, st\<lparr>sent := sent st @ [tavily_search_request self q d t n imgs ans],
                                  status := StatusData ds\<rparr>))"
    by (simp add: tavily_search_try_def Let_def split: sum.split)
  with e' have "fst (tavily_search_try self client q d t n imgs ans st) = Inl e'" by simp
  with e' show "fst (tavily_search self client q (Instance d) (Instance t) n imgs ans st) =
          Inl (ToolException (''Erro inesperado: '' @ m))"
    using tavily_search_other_error [of self client q d t n imgs ans st e'] by simp
next
  show "(\<exists>ds. fst (tavily_search self client q (Instance d) (Instance t) n imgs ans st) = Inr ds)
      \<or> (\<exists>msg. fst (tavily_search self client q (Instance d) (Instance t) n imgs ans st) =
              Inl (ToolException msg))"
    by (rule tavily_search_outcomes)
qed

theorem tavily_search_failure_raises_tool_exception_witness:
  "fst (tavily_search tool0 (answers error_response) ''isabelle'' (Instance BASIC) (Instance NEWS)
          3 True True state0) =
     Inl (ToolException ''Erro HTTP: 401 - Unauthorized'')
   \<and> fst (tavily_search tool0 (fails (RequestError ''timed out'')) ''isabelle'' (Instance BASIC)
          (Instance NEWS) 3 True True state0) =
     Inl (ToolException ''Erro inesperado: timed out'')
   \<and> fst (tavily_search tool0 (answers html_response) ''isabelle'' (Instance BASIC)
          (Instance NEWS) 3 True True state0) =
     Inl (ToolException ''Erro inesperado: Expecting value: line 1 column 1 (char 0)'')
   \<and> body_error (JObj [(''results'', JList [JStr ''x''])]) =
       Some (quoted ''str'' @ '' object has no attribute '' @ quoted ''get'')
   \<and> fst (tavily_search tool0 (answers (ok_response (JObj [(''results'', JList [JStr ''x''])])))
          ''isabelle'' (Instance BASIC) (Instance NEWS) 3 True True state0) =
     Inl (ToolException (''Erro inesperado: '' @ quoted ''str'' @ '' object has no attribute ''
                         @ quoted ''get''))"
proof -
  have be: "body_error (JObj [(''results'', JList [JStr ''x''])]) =
       Some (quoted ''str'' @ '' object has no attribute '' @ quoted ''get'')"
    by (simp add: body_error_def entry_field_def no_get_message_def)
  show ?thesis
    using tavily_search_failure_raises_tool_exception
        [of "answers error_response" tool0 "''isabelle''" BASIC NEWS 3 True True error_response
            "''Client error 401 Unauthorized''" state0 "RequestError ''timed out''" JNull]
      tavily_search_failure_raises_tool_exception
        [of "fails (RequestError ''timed out'')" tool0 "''isabelle''" BASIC NEWS 3 True True
            error_response "''Client error 401 Unauthorized''" state0 "RequestError ''timed out''"
            JNull]
      tavily_search_failure_raises_tool_exception
        [of "answers html_response" tool0 "''isabelle''" BASIC NEWS 3 True True html_response
            "''Expecting value: line 1 column 1 (char 0)''" state0 "RequestError ''timed out''"
            JNull]
      tavily_search_failure_raises_tool_exception
        [of "answers (ok_response (JObj [(''results'', JList [JStr ''x''])]))" tool0
            "''isabelle''" BASIC NEWS 3 True True
            "ok_response (JObj [(''results'', JList [JStr ''x''])])"
            "quoted ''str'' @ '' object has no attribute '' @ quoted ''get''" state0
            "RequestError ''timed out''" "JObj [(''results'', JList [JStr ''x''])]"]
      be
    by (simp add: answers_def fails_def error_response_def html_response_def ok_response_def
          show_int_def show_nat.simps digit_def)
qed

text \<open>
  C4 as stated fails for \<open>run_model\<close>: with the search depth \<^verbatim>\<open>"Deep"\<close>, which names no
  member, it returns a list of one error record and raises nothing.
\<close>

theorem run_model_invalid_depth_counterexample:
  "\<not> valid_depth ascii_python (NotInstance ''Deep'')
   \<and> fst (run_model ascii_python (tool0\<lparr>search_depth := NotInstance ''Deep''\<rparr>)
            (answers (ok_response body1)) state0) =
       Inr [\<lparr>text = None,
             data = [(''error'', JStr (''Valor de profundidade de busca inv'' @ a_acute @ ''lido: ''
                                       @ quoted ''deep'' @ '' is not a valid TavilySearchDepth''))]\<rparr>]"
  by (simp add: run_model_def run_model_error_def TavilySearchDepth_of_def valid_depth_def
        ascii_python_def ascii_lower_def tool0_def)

text \<open>
  C4 (as amended). When the \<open>search_depth\<close> string names no member of
  \<open>TavilySearchDepth\<close>, or it is valid and the \<open>topic\<close> string names no member of
  \<open>TavilySearchTopic\<close>, \<open>run_model\<close> raises nothing and sends no request: it returns a
  list of one record whose \<^verbatim>\<open>error\<close> field carries the message of the failed lookup.
  \<open>_tavily_search\<close> raises a \<^verbatim>\<open>TypeError\<close> when its \<open>search_depth\<close> or its \<open>topic\<close>
  argument is not an instance of the enum.
\<close>

theorem invalid_enum_values:
  "(search_depth self = NotInstance s \<and> \<not> valid_depth py (NotInstance s) \<longrightarrow>
      fst (run_model py self client st) =
        Inr [\<lparr>text = None,
              data = [(''error'', JStr (''Valor de profundidade de busca inv'' @ a_acute @ ''lido: ''
                        @ repr py (lower py s) @ '' is not a valid TavilySearchDepth''))]\<rparr>]
      \<and> sent (snd (run_model py self client st)) = sent st)
   \<and> (valid_depth py (search_depth self) \<and> topic self = NotInstance s
        \<and> \<not> valid_topic py (NotInstance s) \<longrightarrow>
      fst (run_model py self client st) =
        Inr [\<lparr>text = None,
              data = [(''error'', JStr (''Valor de t'' @ o_acute @ ''pico inv'' @ a_acute @ ''lido: ''
                        @ repr py (lower py s) @ '' is not a valid TavilySearchTopic''))]\<rparr>]
      \<and> sent (snd (run_model py self client st)) = sent st)
   \<and> tavily_search self client q (NotInstance s) topic' n imgs ans st =
       (Inl (TypeError (''Profundidade de busca inv'' @ a_acute @ ''lida: '' @ s)), st)
   \<and> tavily_search self client q (Instance d) (NotInstance s) n imgs ans st =
       (Inl (TypeError (''T'' @ o_acute @ ''pico de busca inv'' @ a_acute @ ''lido: '' @ s)), st)"
proof (intro conjI impI)
  assume "search_depth self = NotInstance s \<and> \<not> valid_depth py (NotInstance s)"
  then have "run_model py self client st =
      run_model_error (''Valor de profundidade de busca inv'' @ a_acute @ ''lido: ''
                        @ repr py (lower py s) @ '' is not a valid TavilySearchDepth'') st"
    by (simp add: run_model_def TavilySearchDepth_of_def valid_depth_def)
  then show "fst (run_model py self client st) =
        Inr [\<lparr>text = None,
              data = [(''error'', JStr (''Valor de profundidade de busca inv'' @ a_acute @ ''lido: ''
                        @ repr py (lower py s) @ '' is not a valid TavilySearchDepth''))]\<rparr>]"
    and "sent (snd (run_model py self client st)) = sent st"
    by (simp_all add: run_model_error_def)
next
  assume a: "valid_depth py (search_depth self) \<and> topic self = NotInstance s
        \<and> \<not> valid_topic py (NotInstance s)"
  then obtain d' where "(case search_depth self of
              Instance d \<Rightarrow> Inr d
            | NotInstance s \<Rightarrow> TavilySearchDepth_of py (lower py s)) = Inr d'"
    by (cases "search_depth self") (auto simp add: valid_depth_def TavilySearchDepth_of_def)
  with a have "run_model py self client st =
      run_model_error (''Valor de t'' @ o_acute @ ''pico inv'' @ a_acute @ ''lido: ''
                        @ repr py (lower py s) @ '' is not a valid TavilySearchTopic'') st"
    by (simp add: run_model_def TavilySearchTopic_of_def valid_topic_def)
  then show "fst (run_model py self client st) =
        Inr [\<lparr>text = None,
              data = [(''error'', JStr (''Valor de t'' @ o_acute @ ''pico inv'' @ a_acute @ ''lido: ''
                        @ repr py (lower py s) @ '' is not a valid TavilySearchTopic''))]\<rparr>]"
    and "sent (snd (run_model py self client st)) = sent st"
    by (simp_all add: run_model_error_def)
qed (simp_all add: tavily_search_def)

theorem invalid_enum_values_witness:
  "fst (run_model ascii_python (tool0\<lparr>search_depth := NotInstance ''Deep''\<rparr>)
            (answers (ok_response body1)) state0) =
       Inr [\<lparr>text = None,
             data = [(''error'', JStr (''Valor de profundidade de busca inv'' @ a_acute @ ''lido: ''
                                       @ quoted ''deep'' @ '' is not a valid TavilySearchDepth''))]\<rparr>]
   \<and> fst (run_model ascii_python (tool0\<lparr>search_depth := NotInstance ''Basic'', topic := NotInstance ''Sports''\<rparr>)
            (answers (ok_response body1)) state0) =
       Inr [\<lparr>text = None,
             data = [(''error'', JStr (''Valor de t'' @ o_acute @ ''pico inv'' @ a_acute @ ''lido: ''
                                       @ quoted ''sports'' @ '' is not a valid TavilySearchTopic''))]\<rparr>]
   \<and> sent (snd (run_model ascii_python (tool0\<lparr>search_depth := NotInstance ''Deep''\<rparr>)
            (answers (ok_response body1)) state0)) = []"
  using invalid_enum_values
      [of "tool0\<lparr>search_depth := NotInstance ''Deep''\<rparr>" "''Deep''" ascii_python
          "answers (ok_response body1)" state0]
    invalid_enum_values
      [of "tool0\<lparr>search_depth := NotInstance ''Basic'', topic := NotInstance ''Sports''\<rparr>"
          "''Sports''" ascii_python "answers (ok_response body1)" state0]
  by (simp add: valid_depth_def valid_topic_def ascii_python_def ascii_lower_def tool0_def
        state0_def)

lemma fetch_content_try_sent:
  "sent (snd (fetch_content_try self client st)) = sent st @ [fetch_content_request self]"
  by (simp add: fetch_content_try_def Let_def split: post_outcome.split option.split sum.split)

lemma fetch_content_sent:
  "sent (snd (fetch_content self client st)) = sent (snd (fetch_content_try self client st))"
  by (cases "fetch_content_try self client st")
     (simp add: fetch_content_def error_return_def split: sum.split exn.split)

lemma tavily_search_try_sent:
  "sent (snd (tavily_search_try self client q d t n imgs ans st)) =
     sent st @ [tavily_search_request self q d t n imgs ans]"
  by (simp add: tavily_search_try_def Let_def split: post_outcome.split option.split sum.split)

lemma tavily_search_sent:
  "sent (snd (tavily_search self client q (Instance d) (Instance t) n imgs ans st)) =
     sent (snd (tavily_search_try self client q d t n imgs ans st))"
  by (cases "tavily_search_try self client q d t n imgs ans st")
     (simp add: tavily_search_def Let_def split: sum.split exn.split)

text \<open>
  C6. Every call of \<open>fetch_content\<close>, and every call of \<open>_tavily_search\<close> with members
  of the two enums, sends exactly one request, whatever the environment answers: a POST to
  the Tavily search endpoint whose JSON body holds the API key, the query and each
  configuration field with the value of the component's input or of the argument.
\<close>

theorem one_post_per_search:
  "sent (snd (fetch_content self client st)) =
     sent st @
       [\<lparr>url = ''https://api.tavily.com/search'',
         payload =
           [(''api_key'', JStr (TavilySearchComponent.api_key self)),
            (''query'', JStr (TavilySearchComponent.query self)),
            (''search_depth'', JStr (TavilySearchComponent.search_depth self)),
            (''topic'', JStr (TavilySearchComponent.topic self)),
            (''max_results'', JInt (TavilySearchComponent.max_results self)),
            (''include_images'', JBool (TavilySearchComponent.include_images self)),
            (''include_answer'', JBool (TavilySearchComponent.include_answer self)),
            (''time_range'', case time_range self of None \<Rightarrow> JNull | Some s \<Rightarrow> JStr s)],
         headers = [(''content-type'', ''application/json''), (''accept'', ''application/json'')]\<rparr>]
   \<and> sent (snd (tavily_search tool client q (Instance d) (Instance t) n imgs ans st)) =
     sent st @
       [\<lparr>url = ''https://api.tavily.com/search'',
         payload =
           [(''api_key'', JStr (api_key tool)),
            (''query'', JStr q),
            (''search_depth'', JStr (case d of BASIC \<Rightarrow> ''basic'' | ADVANCED \<Rightarrow> ''advanced'')),
            (''topic'', JStr (case t of GENERAL \<Rightarrow> ''general'' | NEWS \<Rightarrow> ''news'')),
            (''max_results'', JInt n),
            (''include_images'', JBool imgs),
            (''include_answer'', JBool ans)],
         headers = [(''content-type'', ''application/json''), (''accept'', ''application/json'')]\<rparr>]"
proof -
  have "depth_value d = (case d of BASIC \<Rightarrow> ''basic'' | ADVANCED \<Rightarrow> ''advanced'')"
    by (cases d) simp_all
  moreover have "topic_value t = (case t of GENERAL \<Rightarrow> ''general'' | NEWS \<Rightarrow> ''news'')"
    by (cases t) simp_all
  ultimately show ?thesis
    by (simp add: fetch_content_sent fetch_content_try_sent tavily_search_sent
          tavily_search_try_sent fetch_content_request_def tavily_search_request_def
          tavily_url_def tavily_headers_def fetch_content_payload_def tavily_search_payload_def
          opt_str_def)
qed

end
